theory Spec2Isabelle
  imports Complex_Main
begin

section \<open>Python strings\<close>

text \<open>
  A Python \<open>str\<close> is modelled as a \<open>string\<close>; each \<open>char\<close> stands for the code point
  of the same number, so the model covers the strings whose code points are below 256.
\<close>

definition py_isspace :: "char \<Rightarrow> bool" where
  \<comment> \<open>\<open>str.isspace\<close> on one character: TAB, LF, VT, FF, CR, FS, GS, RS, US, SPACE, NEL, NBSP.\<close>
  "py_isspace c =
     (let n = (of_char c :: nat)
      in (9 \<le> n \<and> n \<le> 13) \<or> (28 \<le> n \<and> n \<le> 32) \<or> n = 133 \<or> n = 160)"

definition py_strip :: "string \<Rightarrow> string" where
  \<comment> \<open>\<open>s.strip()\<close>\<close>
  "py_strip s = rev (dropWhile py_isspace (rev (dropWhile py_isspace s)))"

definition rstrip_slash :: "string \<Rightarrow> string" where
  \<comment> \<open>\<open>s.rstrip("/")\<close>\<close>
  "rstrip_slash s = rev (dropWhile (\<lambda>c. c = CHR ''/'') (rev s))"

fun startswith :: "string \<Rightarrow> string \<Rightarrow> bool" where
  \<comment> \<open>\<open>s.startswith(p)\<close>\<close>
  "startswith s [] = True"
| "startswith [] (p # ps) = False"
| "startswith (c # cs) (p # ps) = (c = p \<and> startswith cs ps)"

fun contains :: "string \<Rightarrow> string \<Rightarrow> bool" where
  \<comment> \<open>\<open>sub in s\<close>, written \<open>contains s sub\<close>\<close>
  "contains [] sub = (sub = [])"
| "contains (c # cs) sub = (startswith (c # cs) sub \<or> contains cs sub)"

definition endswith :: "string \<Rightarrow> string \<Rightarrow> bool" where
  "endswith s p = startswith (rev s) (rev p)"

definition lower_char :: "char \<Rightarrow> char" where
  \<comment> \<open>\<open>str.lower\<close> on one character below 256: A-Z, and the Latin-1 capitals except the
      multiplication sign.\<close>
  "lower_char c =
     (let n = (of_char c :: nat)
      in if (65 \<le> n \<and> n \<le> 90) \<or> (192 \<le> n \<and> n \<le> 222 \<and> n \<noteq> 215)
         then char_of (n + 32) else c)"

definition py_lower :: "string \<Rightarrow> string" where
  "py_lower s = map lower_char s"

definition quote_char :: char where
  \<comment> \<open>the apostrophe\<close>
  "quote_char = CHR 0x27"

function show_nat :: "nat \<Rightarrow> string" where
  "show_nat n =
     (if n < 10 then [char_of (48 + n)]
      else show_nat (n div 10) @ [char_of (48 + n mod 10)])"
  by pat_completeness auto
termination
  by (relation "measure id") auto

definition show_int :: "int \<Rightarrow> string" where
  \<comment> \<open>\<open>str(i)\<close> of a Python integer\<close>
  "show_int i = (if i < 0 then CHR ''-'' # show_nat (nat (- i)) else show_nat (nat i))"

section \<open>Values, exceptions and the outside world\<close>

text \<open>
  A decoded JSON document, as \<open>response.json()\<close> returns it: \<open>None\<close>, a bool, an integer, a
  string, a list or a dict (an association list, looked up from the front).
\<close>

datatype json =
    JNull
  | JBool bool
  | JNum int
  | JStr string
  | JArr "json list"
  | JObj "(string \<times> json) list"

text \<open>
  The exceptions the code can meet. \<open>Timeout\<close> and \<open>HTTPError\<close> are subclasses of
  \<open>requests.exceptions.RequestException\<close>; every one of them is an \<open>Exception\<close>.
  A computation that can raise returns \<open>exn + 'a\<close>, \<open>Inl\<close> for the raised exception.
\<close>

datatype exn =
    AttributeError
  | TypeError
  | ValueError
  | OSError
  | RequestException
  | Timeout
  | HTTPError
  | TimeoutExpired
  | RuntimeError

fun is_RequestException :: "exn \<Rightarrow> bool" where
  "is_RequestException RequestException = True"
| "is_RequestException Timeout = True"
| "is_RequestException HTTPError = True"
| "is_RequestException e = False"

record datetime =
  year :: int
  month :: int
  day :: int

record response =
  status_code :: int
  content_type :: "string option"  \<comment> \<open>\<open>headers.get('Content-Type')\<close>\<close>
  content :: string                \<comment> \<open>\<open>response.content\<close>\<close>
  body_text :: string              \<comment> \<open>\<open>response.text\<close>\<close>
  json_body :: "json option"       \<comment> \<open>\<open>response.json()\<close>, \<open>None\<close> when it raises\<close>
  stream_chunks :: string          \<comment> \<open>the bytes \<open>iter_content\<close> yields\<close>
  stream_error :: "exn option"     \<comment> \<open>what \<open>iter_content\<close> raises after them, if anything\<close>

record element =
  tag :: string
  attrs :: "(string \<times> string) list"

type_synonym request = "string \<times> (string \<times> json) list"

datatype curl_outcome =
    CurlRaises exn                  \<comment> \<open>\<open>subprocess.run\<close> raises\<close>
  | CurlExit int "string option"    \<comment> \<open>return code, and the bytes left at the output path\<close>

text \<open>
  The libraries and services the code calls are parameters of the model: the clock, the
  HTTP session, the HTML parser, the PDF converter, \<open>curl\<close>, \<open>pathlib\<close>, the hash,
  \<open>datetime.strptime\<close> (\<open>None\<close> for its \<open>ValueError\<close>) and the printing of values that are
  not strings. A reading of the clock and an HTTP exchange are indexed by the number of
  earlier ones.
\<close>

record env =
  now :: "nat \<Rightarrow> real"
  http :: "nat \<Rightarrow> request \<Rightarrow> exn + response"
  parse_html :: "string \<Rightarrow> exn + element list"
  to_markdown :: "string \<Rightarrow> exn + string"
  has_curl :: bool
  curl :: "string \<Rightarrow> string \<Rightarrow> curl_outcome"
  md5_hex :: "string \<Rightarrow> string"
  re_word :: "char \<Rightarrow> bool"
  exn_str :: "exn \<Rightarrow> string"
  path_str :: "string \<Rightarrow> string"
  home_downloads :: string
  strptime :: "string \<Rightarrow> string \<Rightarrow> datetime option"
  str_datetime :: "datetime \<Rightarrow> string"
  py_repr :: "json \<Rightarrow> string"
  dir_size :: "string \<Rightarrow> nat"

datatype sleep_site = Pacing | Backoff429 | BackoffError | DownloadRetry

text \<open>
  What the code changes: the clock readings taken, the requests sent, the sleeps, the
  searcher's \<open>_last_request_time\<close>, and the files and directories.
\<close>

record state =
  clock_reads :: nat
  requests :: "request list"
  sleeps :: "(sleep_site \<times> real) list"
  last_request_time :: real
  files :: "string \<rightharpoonup> string"
  dirs :: "string \<Rightarrow> bool"

definition time_time :: "env \<Rightarrow> state \<Rightarrow> real \<times> state" where
  "time_time e st = (now e (clock_reads st), st\<lparr>clock_reads := Suc (clock_reads st)\<rparr>)"

definition time_sleep :: "sleep_site \<Rightarrow> real \<Rightarrow> state \<Rightarrow> state" where
  "time_sleep site d st = st\<lparr>sleeps := sleeps st @ [(site, d)]\<rparr>"

definition session_get :: "env \<Rightarrow> request \<Rightarrow> state \<Rightarrow> (exn + response) \<times> state" where
  "session_get e req st =
     (http e (length (requests st)) req, st\<lparr>requests := requests st @ [req]\<rparr>)"

definition raise_for_status :: "response \<Rightarrow> exn option" where
  "raise_for_status r =
     (if 400 \<le> status_code r \<and> status_code r < 600 then Some HTTPError else None)"

definition makedirs :: "string \<Rightarrow> state \<Rightarrow> exn + state" where
  \<comment> \<open>\<open>mkdir(parents=True, exist_ok=True)\<close> and \<open>os.makedirs(p, exist_ok=True)\<close>: an existing
      directory is accepted, an existing regular file is a \<open>FileExistsError\<close>.\<close>
  "makedirs p st =
     (if files st p \<noteq> None then Inl OSError else Inr (st\<lparr>dirs := (dirs st)(p := True)\<rparr>))"

definition write_file :: "string \<Rightarrow> string \<Rightarrow> state \<Rightarrow> exn + state" where
  \<comment> \<open>\<open>open(p, 'wb')\<close> and the writes: a directory at \<open>p\<close> is an \<open>IsADirectoryError\<close>.\<close>
  "write_file p bytes st =
     (if dirs st p then Inl OSError else Inr (st\<lparr>files := (files st)(p \<mapsto> bytes)\<rparr>))"

definition path_child :: "string \<Rightarrow> string \<Rightarrow> string" where
  \<comment> \<open>\<open>str(Path(d) / name)\<close> for a normalised \<open>d\<close> and a plain file name\<close>
  "path_child d name =
     (if d = ''.'' then name
      else if endswith d ''/'' then d @ name
      else d @ ''/'' @ name)"

section \<open>sci\_hub.py\<close>

subsection \<open>check\_paper\_year\<close>

definition check_paper_year :: "datetime option \<Rightarrow> int \<Rightarrow> bool" where
  \<comment> \<open>A \<open>datetime\<close> object is always truthy, so \<open>not published_date\<close> holds for \<open>None\<close> only.\<close>
  "check_paper_year published_date cutoff_year =
     (case published_date of
        None \<Rightarrow> False
      | Some d \<Rightarrow> year d < cutoff_year)"

subsection \<open>\_normalize\_url\<close>

definition normalize_url :: "string \<Rightarrow> string \<Rightarrow> string" where
  \<comment> \<open>\<open>SciHubFetcher._normalize_url\<close>; the first argument is \<open>self.base_url\<close>.\<close>
  "normalize_url base_url url =
     (if startswith url ''//'' then ''https:'' @ url
      else if startswith url ''/'' then base_url @ url
      else url)"

subsection \<open>\_get\_pdf\_url\<close>

definition attr_get :: "element \<Rightarrow> string \<Rightarrow> string option" where
  \<comment> \<open>\<open>el.get(name)\<close>\<close>
  "attr_get el name = map_of (attrs el) name"

definition href_here :: "string \<Rightarrow> string option" where
  \<comment> \<open>the pattern \<open>location\.href='([^']+)'\<close> matched at the start of \<open>s\<close>; the group\<close>
  "href_here s =
     (let p = ''location.href='' @ [quote_char] in
      if startswith s p then
        (let rest = drop (length p) s;
             g = takeWhile (\<lambda>c. c \<noteq> quote_char) rest
         in if g \<noteq> [] \<and> startswith (drop (length g) rest) [quote_char]
            then Some g else None)
      else None)"

fun re_search_href :: "string \<Rightarrow> string option" where
  \<comment> \<open>\<open>re.search\<close> of that pattern: the leftmost match\<close>
  "re_search_href [] = None"
| "re_search_href (c # cs) =
     (case href_here (c # cs) of
        Some g \<Rightarrow> Some g
      | None \<Rightarrow> re_search_href cs)"

definition tag_src :: "element option \<Rightarrow> string option" where
  \<comment> \<open>\<open>el and el.get('src')\<close>: the source when the element was found and has a non-empty one\<close>
  "tag_src found =
     (case found of
        None \<Rightarrow> None
      | Some el \<Rightarrow>
          (case attr_get el ''src'' of
             None \<Rightarrow> None
           | Some s \<Rightarrow> if s = [] then None else Some s))"

fun scan_buttons :: "string \<Rightarrow> element list \<Rightarrow> string option" where
  "scan_buttons base_url [] = None"
| "scan_buttons base_url (button # rest) =
     (let onclick = (case attr_get button ''onclick'' of None \<Rightarrow> [] | Some v \<Rightarrow> v) in
      if contains (py_lower onclick) ''pdf'' then
        (case re_search_href onclick of
           Some g \<Rightarrow> Some (normalize_url base_url g)
         | None \<Rightarrow> scan_buttons base_url rest)
      else scan_buttons base_url rest)"

fun scan_links :: "string \<Rightarrow> string list \<Rightarrow> string option" where
  "scan_links base_url [] = None"
| "scan_links base_url (href # rest) =
     (if contains (py_lower href) ''pdf'' \<or> endswith href ''.pdf''
      then Some (normalize_url base_url href)
      else scan_links base_url rest)"

definition find_pdf_link :: "string \<Rightarrow> element list \<Rightarrow> string option" where
  \<comment> \<open>the four methods of \<open>_get_pdf_url\<close> on the parsed page, its elements in document order\<close>
  "find_pdf_link base_url soup =
     (let embed = find (\<lambda>el. tag el = ''embed'' \<and> attr_get el ''type'' = Some ''application/pdf'') soup;
          iframe = find (\<lambda>el. tag el = ''iframe'') soup
      in case tag_src embed of
           Some s \<Rightarrow> Some (normalize_url base_url s)
         | None \<Rightarrow>
        (case tag_src iframe of
           Some s \<Rightarrow> Some (normalize_url base_url s)
         | None \<Rightarrow>
        (case scan_buttons base_url (filter (\<lambda>el. tag el = ''button'') soup) of
           Some u \<Rightarrow> Some u
         | None \<Rightarrow>
            scan_links base_url
              (List.map_filter (\<lambda>el. if tag el = ''a'' then attr_get el ''href'' else None) soup))))"

definition get_pdf_url :: "env \<Rightarrow> string \<Rightarrow> string \<Rightarrow> state \<Rightarrow> string option \<times> state" where
  \<comment> \<open>\<open>SciHubFetcher._get_pdf_url\<close>: every exception inside ends in \<open>None\<close>\<close>
  "get_pdf_url e base_url doi st =
     (case session_get e (base_url @ ''/'' @ doi, []) st of
        (Inl ex, st1) \<Rightarrow> (None, st1)
      | (Inr r, st1) \<Rightarrow>
          if status_code r \<noteq> 200 then (None, st1)
          else if contains (py_lower (body_text r)) ''article not found'' then (None, st1)
          else (case parse_html e (content r) of
                  Inl ex \<Rightarrow> (None, st1)
                | Inr soup \<Rightarrow> (find_pdf_link base_url soup, st1)))"

subsection \<open>download\_pdf and read\_paper\<close>

definition generate_filename :: "env \<Rightarrow> string \<Rightarrow> response \<Rightarrow> string" where
  "generate_filename e doi r =
     (let clean_doi = map (\<lambda>c. if re_word e c \<or> c = CHR ''-'' \<or> c = CHR ''_'' \<or> c = CHR ''.''
                                then c else CHR ''_'') doi;
          content_hash = take 6 (md5_hex e (content r))
      in ''scihub_'' @ clean_doi @ ''_'' @ content_hash @ ''.pdf'')"

definition scihub_fetch :: "env \<Rightarrow> string \<Rightarrow> string \<Rightarrow> string \<Rightarrow> state \<Rightarrow> (exn + string) \<times> state" where
  \<comment> \<open>the \<open>try\<close> block of \<open>download_pdf\<close>, before its \<open>except\<close>\<close>
  "scihub_fetch e base_url doi output_dir st =
     (case get_pdf_url e base_url doi st of
        (found, st1) \<Rightarrow>
          (case (case found of None \<Rightarrow> None | Some u \<Rightarrow> if u = [] then None else Some u) of
             None \<Rightarrow> (Inr (''Error: Could not find PDF for DOI '' @ doi @ '' on Sci-Hub''), st1)
           | Some pdf_url \<Rightarrow>
               (case session_get e (pdf_url, []) st1 of
                  (Inl ex, st2) \<Rightarrow> (Inl ex, st2)
                | (Inr r, st2) \<Rightarrow>
                    if status_code r \<noteq> 200
                    then (Inr (''Error: Download failed with status '' @ show_int (status_code r)), st2)
                    else
                      (let ctype = (case content_type r of None \<Rightarrow> [] | Some c \<Rightarrow> c) in
                       if \<not> contains (py_lower ctype) ''pdf'' \<and> \<not> take 4 (content r) = ''%PDF''
                       then (Inr (''Error: Response is not a PDF (Content-Type: '' @ ctype @ '')''), st2)
                       else
                         (let file_path = path_child output_dir (generate_filename e doi r) in
                          case write_file file_path (content r) st2 of
                            Inl ex \<Rightarrow> (Inl ex, st2)
                          | Inr st3 \<Rightarrow> (Inr file_path, st3))))))"

definition scihub_download_pdf ::
  "env \<Rightarrow> string \<Rightarrow> string \<Rightarrow> string option \<Rightarrow> state \<Rightarrow> (exn + string) \<times> state" where
  \<comment> \<open>\<open>SciHubFetcher.download_pdf\<close>; the second argument is \<open>self.base_url\<close>\<close>
  "scihub_download_pdf e base_url doi save_path st =
     (if doi = [] \<or> py_strip doi = [] then (Inr ''Error: DOI is empty'', st)
      else
        (let doi1 = py_strip doi;
             output_dir = (case save_path of
                             None \<Rightarrow> home_downloads e
                           | Some p \<Rightarrow> if p = [] then home_downloads e else path_str e p)
         in case makedirs output_dir st of
              Inl ex \<Rightarrow> (Inl ex, st)
            | Inr st1 \<Rightarrow>
                (case scihub_fetch e base_url doi1 output_dir st1 of
                   (Inl ex, st2) \<Rightarrow> (Inr (''Error downloading PDF: '' @ exn_str e ex), st2)
                 | (Inr res, st2) \<Rightarrow> (Inr res, st2))))"

definition pdf_to_markdown :: "env \<Rightarrow> string \<Rightarrow> state \<Rightarrow> exn + string" where
  \<comment> \<open>\<open>pymupdf4llm.to_markdown(pdf_path)\<close>: it reads the file, and raises when there is none\<close>
  "pdf_to_markdown e pdf_path st =
     (case files st pdf_path of
        None \<Rightarrow> Inl RuntimeError
      | Some bytes \<Rightarrow> to_markdown e bytes)"

definition nl :: string where
  "nl = [CHR 0x0A]"

definition scihub_metadata :: "string \<Rightarrow> string \<Rightarrow> string" where
  "scihub_metadata doi pdf_path =
     ''# Paper: '' @ doi @ nl @ nl
     @ ''**DOI**: https://doi.org/'' @ doi @ nl
     @ ''**PDF**: '' @ pdf_path @ nl
     @ ''**Source**: Sci-Hub'' @ nl @ nl
     @ ''---'' @ nl @ nl"

definition scihub_read_paper ::
  "env \<Rightarrow> string \<Rightarrow> string \<Rightarrow> string option \<Rightarrow> state \<Rightarrow> (exn + string) \<times> state" where
  \<comment> \<open>\<open>SciHubFetcher.read_paper\<close>\<close>
  "scihub_read_paper e base_url doi save_path st =
     (case scihub_download_pdf e base_url doi save_path st of
        (Inl ex, st1) \<Rightarrow> (Inl ex, st1)
      | (Inr result, st1) \<Rightarrow>
          if startswith result ''Error'' then (Inr result, st1)
          else
            (case pdf_to_markdown e result st1 of
               Inl ex \<Rightarrow> (Inr (''Error extracting text: '' @ exn_str e ex), st1)
             | Inr txt \<Rightarrow>
                 if py_strip txt = []
                 then (Inr (''PDF downloaded to '' @ result @ '', but no text could be extracted.''), st1)
                 else (Inr (scihub_metadata doi result @ txt), st1)))"

section \<open>semantic.py\<close>

subsection \<open>Python operations on decoded JSON\<close>

fun truthy :: "json \<Rightarrow> bool" where
  "truthy JNull = False"
| "truthy (JBool b) = b"
| "truthy (JNum n) = (n \<noteq> 0)"
| "truthy (JStr s) = (s \<noteq> [])"
| "truthy (JArr xs) = (xs \<noteq> [])"
| "truthy (JObj kvs) = (kvs \<noteq> [])"

fun dict_get :: "json \<Rightarrow> string \<Rightarrow> json \<Rightarrow> exn + json" where
  \<comment> \<open>\<open>d.get(k, default)\<close>; only a dict has \<open>get\<close>\<close>
  "dict_get (JObj kvs) k dflt = Inr (case map_of kvs k of None \<Rightarrow> dflt | Some v \<Rightarrow> v)"
| "dict_get d k dflt = Inl AttributeError"

fun py_iter :: "json \<Rightarrow> exn + json list" where
  \<comment> \<open>what a \<open>for\<close> loop over the value visits: a dict gives its keys, a string its characters\<close>
  "py_iter (JArr xs) = Inr xs"
| "py_iter (JStr s) = Inr (map (\<lambda>c. JStr [c]) s)"
| "py_iter (JObj kvs) = Inr (map (\<lambda>kv. JStr (fst kv)) kvs)"
| "py_iter v = Inl TypeError"

definition slice_to :: "'a list \<Rightarrow> int \<Rightarrow> 'a list" where
  \<comment> \<open>\<open>xs[:m]\<close>: a negative \<open>m\<close> counts from the end\<close>
  "slice_to xs m = (if m < 0 then take (nat (int (length xs) + m)) xs else take (nat m) xs)"

fun py_slice_to :: "json \<Rightarrow> int \<Rightarrow> exn + json" where
  \<comment> \<open>\<open>v[:m]\<close>: lists and strings can be sliced, nothing else\<close>
  "py_slice_to (JArr xs) m = Inr (JArr (slice_to xs m))"
| "py_slice_to (JStr s) m = Inr (JStr (slice_to s m))"
| "py_slice_to v m = Inl TypeError"

definition py_str :: "env \<Rightarrow> json \<Rightarrow> string" where
  \<comment> \<open>\<open>str(v)\<close>, as an f-string prints it\<close>
  "py_str e v = (case v of JStr s \<Rightarrow> s | _ \<Rightarrow> py_repr e v)"

definition bind :: "exn + 'a \<Rightarrow> ('a \<Rightarrow> exn + 'b) \<Rightarrow> exn + 'b" where
  \<comment> \<open>sequencing: the first exception raised ends the computation\<close>
  "bind m f = (case m of Inl ex \<Rightarrow> Inl ex | Inr v \<Rightarrow> f v)"

subsection \<open>The rate-limited request client\<close>

record searcher =
  api_key :: string
  max_retries :: int

definition BASE_URL :: string where
  "BASE_URL = ''https://api.semanticscholar.org/graph/v1''"

definition DEFAULT_FIELDS :: string where
  \<comment> \<open>\<open>",".join(self.DEFAULT_FIELDS)\<close>\<close>
  "DEFAULT_FIELDS =
     ''title,abstract,year,citationCount,authors,url,publicationDate,externalIds,fieldsOfStudy,openAccessPdf''"

definition min_request_interval :: "searcher \<Rightarrow> real" where
  "min_request_interval s = (if api_key s \<noteq> [] then 1 else 1 / 2)"

definition rate_limit_wait :: "env \<Rightarrow> searcher \<Rightarrow> state \<Rightarrow> state" where
  "rate_limit_wait e s st =
     (case time_time e st of
        (t1, st1) \<Rightarrow>
          (let elapsed = t1 - last_request_time st1;
               st2 = (if elapsed < min_request_interval s
                      then time_sleep Pacing (min_request_interval s - elapsed) st1
                      else st1)
           in case time_time e st2 of
                (t2, st3) \<Rightarrow> st3\<lparr>last_request_time := t2\<rparr>))"

datatype try_outcome =
    Got response      \<comment> \<open>the \<open>try\<close> block returns the response\<close>
  | Limited           \<comment> \<open>status 429\<close>
  | Raised exn        \<comment> \<open>\<open>session.get\<close> or \<open>raise_for_status\<close> raises\<close>

definition try_get :: "env \<Rightarrow> request \<Rightarrow> state \<Rightarrow> try_outcome \<times> state" where
  "try_get e req st =
     (case session_get e req st of
        (Inl ex, st1) \<Rightarrow> (Raised ex, st1)
      | (Inr r, st1) \<Rightarrow>
          if status_code r = 429 then (Limited, st1)
          else (case raise_for_status r of
                  Some ex \<Rightarrow> (Raised ex, st1)
                | None \<Rightarrow> (Got r, st1)))"

function make_request ::
  "env \<Rightarrow> searcher \<Rightarrow> string \<Rightarrow> (string \<times> json) list \<Rightarrow> nat \<Rightarrow> state
   \<Rightarrow> (exn + response option) \<times> state" where
  "make_request e s endpoint params retry_count st =
     (case try_get e (BASE_URL @ ''/'' @ endpoint, params) (rate_limit_wait e s st) of
        (Got r, st1) \<Rightarrow> (Inr (Some r), st1)
      | (Limited, st1) \<Rightarrow>
          if int retry_count < max_retries s then
            (case time_time e st1 of
               (t, st2) \<Rightarrow>
                 make_request e s endpoint params (Suc retry_count)
                   (time_sleep Backoff429 (2 ^ retry_count + frac t) st2))
          else (Inr None, st1)
      | (Raised ex, st1) \<Rightarrow>
          if is_RequestException ex then
            (if int retry_count < max_retries s then
               make_request e s endpoint params (Suc retry_count)
                 (time_sleep BackoffError (2 ^ retry_count) st1)
             else (Inr None, st1))
          else (Inl ex, st1))"
  by pat_completeness auto
termination
  by (relation "measure (\<lambda>(e, s, endpoint, params, retry_count, st).
                  nat (max_retries s - int retry_count))") auto

subsection \<open>\_parse\_date and \_extract\_pdf\_url\<close>

definition parse_date :: "env \<Rightarrow> json \<Rightarrow> exn + datetime option" where
  \<comment> \<open>\<open>_parse_date\<close>: a truthy value that is not a string has no \<open>strip\<close>\<close>
  "parse_date e date_str =
     (if \<not> truthy date_str then Inr None
      else case date_str of
             JStr d \<Rightarrow>
               (case strptime e (py_strip d) ''%Y-%m-%d'' of
                  Some t \<Rightarrow> Inr (Some t)
                | None \<Rightarrow> Inr (strptime e (take 4 (py_strip d)) ''%Y''))
           | _ \<Rightarrow> Inl AttributeError)"

definition url_char :: "char \<Rightarrow> bool" where
  \<comment> \<open>the class \<open>[^\s,)"]\<close>\<close>
  "url_char c = (\<not> py_isspace c \<and> c \<noteq> CHR '','' \<and> c \<noteq> CHR '')'' \<and> c \<noteq> CHR 0x22)"

definition url_here :: "string \<Rightarrow> string option" where
  \<comment> \<open>the pattern \<open>https?://[^\s,)"]+\<close> matched at the start of \<open>s\<close>; the text matched\<close>
  "url_here s =
     (if startswith s ''https://'' then
        (let body = takeWhile url_char (drop 8 s)
         in if body \<noteq> [] then Some (''https://'' @ body) else None)
      else if startswith s ''http://'' then
        (let body = takeWhile url_char (drop 7 s)
         in if body \<noteq> [] then Some (''http://'' @ body) else None)
      else None)"

fun findall_from :: "nat \<Rightarrow> string \<Rightarrow> string list" where
  \<comment> \<open>\<open>re.findall\<close> of that pattern, left to right without overlap; the first argument
      counts the characters still inside the last match\<close>
  "findall_from n [] = []"
| "findall_from (Suc n) (c # cs) = findall_from n cs"
| "findall_from 0 (c # cs) =
     (case url_here (c # cs) of
        Some m \<Rightarrow> m # findall_from (length m - 1) cs
      | None \<Rightarrow> findall_from 0 cs)"

definition findall_urls :: "string \<Rightarrow> string list" where
  "findall_urls s = findall_from 0 s"

fun replace_from :: "nat \<Rightarrow> string \<Rightarrow> string \<Rightarrow> string \<Rightarrow> string" where
  "replace_from n old new [] = []"
| "replace_from (Suc n) old new (c # cs) = replace_from n old new cs"
| "replace_from 0 old new (c # cs) =
     (if startswith (c # cs) old then new @ replace_from (length old - 1) old new cs
      else c # replace_from 0 old new cs)"

definition py_replace :: "string \<Rightarrow> string \<Rightarrow> string \<Rightarrow> string" where
  \<comment> \<open>\<open>s.replace(old, new)\<close> for a non-empty \<open>old\<close>, written \<open>py_replace old new s\<close>\<close>
  "py_replace old new s = replace_from 0 old new s"

fun prefer_url :: "string list \<Rightarrow> string option" where
  \<comment> \<open>the loop over the matches: the first DOI or arXiv URL\<close>
  "prefer_url [] = None"
| "prefer_url (url # rest) =
     (if contains url ''doi.org'' \<or> contains url ''arxiv.org'' then
        (if contains url ''arxiv.org/abs/''
         then Some (py_replace ''/abs/'' ''/pdf/'' url @ ''.pdf'')
         else Some url)
      else prefer_url rest)"

definition pick_url :: "string list \<Rightarrow> string" where
  "pick_url ms =
     (case ms of
        [] \<Rightarrow> []
      | m # rest \<Rightarrow> (case prefer_url ms of Some u \<Rightarrow> u | None \<Rightarrow> m))"

definition extract_pdf_url :: "json \<Rightarrow> exn + json" where
  \<comment> \<open>\<open>_extract_pdf_url\<close>; \<open>re.findall\<close> on a value that is not a string is a \<open>TypeError\<close>\<close>
  "extract_pdf_url open_access_pdf =
     (if \<not> truthy open_access_pdf then Inr (JStr [])
      else
        bind (dict_get open_access_pdf ''url'' JNull) (\<lambda>u.
          if truthy u then Inr u
          else
            bind (dict_get open_access_pdf ''disclaimer'' (JStr [])) (\<lambda>disclaimer.
              if truthy disclaimer then
                (case disclaimer of
                   JStr d \<Rightarrow> Inr (JStr (pick_url (findall_urls d)))
                 | _ \<Rightarrow> Inl TypeError)
              else Inr (JStr []))))"

subsection \<open>\_parse\_paper, search and get\_paper\_details\<close>

text \<open>
  Modelled from the spec: the class \<open>Paper\<close> of \<open>paper_search_mcp/paper.py\<close>, a flat record
  with the fields \<open>_parse_paper\<close> passes to its constructor. A field holds what the API
  sent, whatever its type. A \<open>Paper\<close> object is truthy.
\<close>

record paper =
  paper_id :: json
  title :: json
  authors :: "json list"
  abstract :: json
  url :: json
  pdf_url :: json
  published_date :: "datetime option"
  source :: string
  categories :: json
  doi :: json
  citations :: json

fun author_names :: "json list \<Rightarrow> exn + json list" where
  \<comment> \<open>\<open>[author.get('name', '') for author in ... if author.get('name')]\<close>\<close>
  "author_names [] = Inr []"
| "author_names (author # rest) =
     bind (dict_get author ''name'' JNull) (\<lambda>n.
       if truthy n then
         bind (dict_get author ''name'' (JStr [])) (\<lambda>v.
           bind (author_names rest) (\<lambda>vs. Inr (v # vs)))
       else author_names rest)"

definition parse_paper_try :: "env \<Rightarrow> json \<Rightarrow> exn + paper option" where
  \<comment> \<open>the \<open>try\<close> block of \<open>_parse_paper\<close>\<close>
  "parse_paper_try e data =
     bind (dict_get data ''paperId'' (JStr [])) (\<lambda>pid.
     if \<not> truthy pid then Inr None
     else
       bind (dict_get data ''authors'' (JArr [])) (\<lambda>as.
       bind (py_iter as) (\<lambda>al.
       bind (author_names al) (\<lambda>names.
       bind (dict_get data ''externalIds'' (JObj [])) (\<lambda>x.
       bind (dict_get (if truthy x then x else JObj []) ''DOI'' (JStr [])) (\<lambda>d.
       bind (dict_get data ''openAccessPdf'' JNull) (\<lambda>oa.
       bind (extract_pdf_url oa) (\<lambda>pu.
       bind (dict_get data ''title'' (JStr ''Untitled'')) (\<lambda>ti.
       bind (dict_get data ''abstract'' (JStr [])) (\<lambda>ab.
       bind (dict_get data ''url'' (JStr [])) (\<lambda>ur.
       bind (dict_get data ''publicationDate'' (JStr [])) (\<lambda>pd.
       bind (parse_date e pd) (\<lambda>date.
       bind (dict_get data ''fieldsOfStudy'' (JArr [])) (\<lambda>fs.
       bind (dict_get data ''citationCount'' (JNum 0)) (\<lambda>cc.
         Inr (Some \<lparr>paper_id = pid, title = ti, authors = names, abstract = ab, url = ur,
                     pdf_url = pu, published_date = date, source = ''semantic'',
                     categories = (if truthy fs then fs else JArr []), doi = d,
                     citations = (if truthy cc then cc else JNum 0)\<rparr>))))))))))))))))"

definition parse_paper :: "env \<Rightarrow> json \<Rightarrow> paper option" where
  \<comment> \<open>\<open>_parse_paper\<close>: \<open>except Exception\<close> turns every exception into \<open>None\<close>\<close>
  "parse_paper e data = (case parse_paper_try e data of Inl ex \<Rightarrow> None | Inr p \<Rightarrow> p)"

definition search ::
  "env \<Rightarrow> searcher \<Rightarrow> string \<Rightarrow> string option \<Rightarrow> int \<Rightarrow> state \<Rightarrow> (exn + paper list) \<times> state" where
  \<comment> \<open>\<open>SemanticSearcher.search\<close>; the slice and the loop stand after the \<open>try\<close> block\<close>
  "search e s query yr max_results st =
     (let params = [(''query'', JStr query), (''limit'', JNum (min max_results 100)),
                    (''fields'', JStr DEFAULT_FIELDS)]
                   @ (case yr of
                        None \<Rightarrow> []
                      | Some y \<Rightarrow> if y = [] then [] else [(''year'', JStr y)])
      in case make_request e s ''paper/search'' params 0 st of
           (Inl ex, st1) \<Rightarrow> (Inl ex, st1)
         | (Inr None, st1) \<Rightarrow> (Inr [], st1)
         | (Inr (Some r), st1) \<Rightarrow>
             (case (case json_body r of
                      None \<Rightarrow> Inl ValueError
                    | Some data \<Rightarrow> dict_get data ''data'' (JArr [])) of
                Inl ex \<Rightarrow> (Inr [], st1)
              | Inr results \<Rightarrow>
                  (case bind (py_slice_to results max_results) py_iter of
                     Inl ex \<Rightarrow> (Inl ex, st1)
                   | Inr items \<Rightarrow> (Inr (List.map_filter (parse_paper e) items), st1))))"

definition get_paper_details ::
  "env \<Rightarrow> searcher \<Rightarrow> string \<Rightarrow> state \<Rightarrow> (exn + paper option) \<times> state" where
  "get_paper_details e s pid st =
     (case make_request e s (''paper/'' @ pid) [(''fields'', JStr DEFAULT_FIELDS)] 0 st of
        (Inl ex, st1) \<Rightarrow> (Inl ex, st1)
      | (Inr None, st1) \<Rightarrow> (Inr None, st1)
      | (Inr (Some r), st1) \<Rightarrow>
          (case json_body r of
             None \<Rightarrow> (Inr None, st1)
           | Some data \<Rightarrow> (Inr (parse_paper e data), st1)))"

subsection \<open>\_download\_with\_curl, download\_pdf and read\_paper\<close>

definition path_exists :: "state \<Rightarrow> string \<Rightarrow> bool" where
  \<comment> \<open>\<open>os.path.exists\<close>\<close>
  "path_exists st p = (files st p \<noteq> None \<or> dirs st p)"

definition getsize :: "env \<Rightarrow> state \<Rightarrow> string \<Rightarrow> exn + nat" where
  \<comment> \<open>\<open>os.path.getsize\<close>\<close>
  "getsize e st p =
     (case files st p of
        Some bytes \<Rightarrow> Inr (length bytes)
      | None \<Rightarrow> if dirs st p then Inr (dir_size e p) else Inl OSError)"

definition os_remove :: "string \<Rightarrow> state \<Rightarrow> exn + state" where
  \<comment> \<open>\<open>os.remove\<close>: it deletes a regular file, and raises on anything else\<close>
  "os_remove p st =
     (if files st p \<noteq> None then Inr (st\<lparr>files := (files st)(p := None)\<rparr>) else Inl OSError)"

definition curl_try :: "env \<Rightarrow> json \<Rightarrow> string \<Rightarrow> state \<Rightarrow> (exn + bool) \<times> state" where
  \<comment> \<open>the \<open>try\<close> block of \<open>_download_with_curl\<close>; a URL that is not a string is a
      \<open>TypeError\<close> of \<open>subprocess.run\<close>\<close>
  "curl_try e u pdf_path st =
     (case u of
        JStr target \<Rightarrow>
          (case curl e target pdf_path of
             CurlRaises ex \<Rightarrow> (Inl ex, st)
           | CurlExit returncode written \<Rightarrow>
               (let st1 = (case written of
                             None \<Rightarrow> st
                           | Some bytes \<Rightarrow> st\<lparr>files := (files st)(pdf_path \<mapsto> bytes)\<rparr>)
                in if returncode = 0 \<and> path_exists st1 pdf_path then
                     (case getsize e st1 pdf_path of
                        Inl ex \<Rightarrow> (Inl ex, st1)
                      | Inr file_size \<Rightarrow>
                          if file_size > 1000 then (Inr True, st1)
                          else (case os_remove pdf_path st1 of
                                  Inl ex \<Rightarrow> (Inl ex, st1)
                                | Inr st2 \<Rightarrow> (Inr False, st2)))
                   else (Inr False, st1)))
      | _ \<Rightarrow> (Inl TypeError, st))"

definition download_with_curl :: "env \<Rightarrow> json \<Rightarrow> string \<Rightarrow> state \<Rightarrow> bool \<times> state" where
  \<comment> \<open>\<open>_download_with_curl\<close>: both \<open>except\<close> clauses return \<open>False\<close>\<close>
  "download_with_curl e u pdf_path st =
     (if \<not> has_curl e then (False, st)
      else case curl_try e u pdf_path st of
             (Inl ex, st1) \<Rightarrow> (False, st1)
           | (Inr ok, st1) \<Rightarrow> (ok, st1))"

definition os_makedirs :: "string \<Rightarrow> state \<Rightarrow> exn + state" where
  \<comment> \<open>\<open>os.makedirs(p, exist_ok=True)\<close>: the empty path is a \<open>FileNotFoundError\<close>\<close>
  "os_makedirs p st = (if p = [] then Inl OSError else makedirs p st)"

definition os_path_join :: "string \<Rightarrow> string \<Rightarrow> string" where
  \<comment> \<open>\<open>os.path.join(d, name)\<close> for a relative \<open>name\<close>\<close>
  "os_path_join d name =
     (if d = [] then name
      else if endswith d ''/'' then d @ name
      else d @ ''/'' @ name)"

definition stream_to_file :: "env \<Rightarrow> json \<Rightarrow> string \<Rightarrow> state \<Rightarrow> (exn + unit) \<times> state" where
  \<comment> \<open>the \<open>try\<close> block of the fallback loop: the request, the status check, and the chunks
      written to the opened file\<close>
  "stream_to_file e u pdf_path st =
     (case session_get e (py_str e u, []) st of
        (Inl ex, st1) \<Rightarrow> (Inl ex, st1)
      | (Inr r, st1) \<Rightarrow>
          (case raise_for_status r of
             Some ex \<Rightarrow> (Inl ex, st1)
           | None \<Rightarrow>
               (case write_file pdf_path (stream_chunks r) st1 of
                  Inl ex \<Rightarrow> (Inl ex, st1)
                | Inr st2 \<Rightarrow>
                    (case stream_error r of
                       Some ex \<Rightarrow> (Inl ex, st2)
                     | None \<Rightarrow> (Inr (), st2)))))"

fun download_loop ::
  "env \<Rightarrow> searcher \<Rightarrow> json \<Rightarrow> string \<Rightarrow> nat list \<Rightarrow> state \<Rightarrow> (exn + string) \<times> state" where
  \<comment> \<open>\<open>for attempt in range(self.max_retries)\<close> and the \<open>return\<close> after it; only a
      \<open>RequestException\<close> is caught\<close>
  "download_loop e s u pdf_path [] st =
     (Inr (''Error downloading PDF: All methods failed for '' @ py_str e u), st)"
| "download_loop e s u pdf_path (attempt # rest) st =
     (case stream_to_file e u pdf_path st of
        (Inr ok, st1) \<Rightarrow> (Inr pdf_path, st1)
      | (Inl ex, st1) \<Rightarrow>
          if is_RequestException ex then
            download_loop e s u pdf_path rest
              (if int attempt < max_retries s - 1
               then time_sleep DownloadRetry (2 ^ attempt) st1 else st1)
          else (Inl ex, st1))"

definition semantic_download_pdf ::
  "env \<Rightarrow> searcher \<Rightarrow> string \<Rightarrow> string \<Rightarrow> state \<Rightarrow> (exn + string) \<times> state" where
  \<comment> \<open>\<open>SemanticSearcher.download_pdf\<close>\<close>
  "semantic_download_pdf e s pid save_path st =
     (case get_paper_details e s pid st of
        (Inl ex, st1) \<Rightarrow> (Inl ex, st1)
      | (Inr None, st1) \<Rightarrow> (Inr (''Error: Could not find paper '' @ pid), st1)
      | (Inr (Some p), st1) \<Rightarrow>
          if \<not> truthy (pdf_url p)
          then (Inr (''Error: No PDF URL available for paper '' @ pid), st1)
          else
            (case os_makedirs save_path st1 of
               Inl ex \<Rightarrow> (Inl ex, st1)
             | Inr st2 \<Rightarrow>
                 (let safe_id = map (\<lambda>c. if c = CHR ''/'' \<or> c = CHR '':'' then CHR ''_'' else c) pid;
                      filename = ''semantic_'' @ safe_id @ ''.pdf'';
                      pdf_path = os_path_join save_path filename
                  in case download_with_curl e (pdf_url p) pdf_path st2 of
                       (True, st3) \<Rightarrow> (Inr pdf_path, st3)
                     | (False, st3) \<Rightarrow>
                         download_loop e s (pdf_url p) pdf_path [0..<nat (max_retries s)] st3)))"

fun join_names :: "json list \<Rightarrow> exn + string" where
  \<comment> \<open>\<open>', '.join(names)\<close>: an item that is not a string is a \<open>TypeError\<close>\<close>
  "join_names [] = Inr []"
| "join_names [JStr a] = Inr a"
| "join_names (JStr a # rest) = bind (join_names rest) (\<lambda>r. Inr (a @ '', '' @ r))"
| "join_names (v # rest) = Inl TypeError"

definition semantic_metadata :: "env \<Rightarrow> paper option \<Rightarrow> string \<Rightarrow> exn + string" where
  "semantic_metadata e found pdf_path =
     (case found of
        None \<Rightarrow> Inr []
      | Some p \<Rightarrow>
          bind (join_names (authors p)) (\<lambda>names.
            Inr (''# '' @ py_str e (title p) @ nl @ nl
                 @ ''**Authors**: '' @ names @ nl
                 @ ''**Published**: ''
                 @ (case published_date p of None \<Rightarrow> ''None'' | Some d \<Rightarrow> str_datetime e d) @ nl
                 @ ''**URL**: '' @ py_str e (url p) @ nl
                 @ ''**PDF**: '' @ pdf_path @ nl @ nl
                 @ ''---'' @ nl @ nl)))"

definition semantic_read_paper ::
  "env \<Rightarrow> searcher \<Rightarrow> string \<Rightarrow> string \<Rightarrow> state \<Rightarrow> (exn + string) \<times> state" where
  \<comment> \<open>\<open>SemanticSearcher.read_paper\<close>\<close>
  "semantic_read_paper e s pid save_path st =
     (case semantic_download_pdf e s pid save_path st of
        (Inl ex, st1) \<Rightarrow> (Inl ex, st1)
      | (Inr pdf_path, st1) \<Rightarrow>
          if startswith pdf_path ''Error'' then (Inr pdf_path, st1)
          else
            (case get_paper_details e s pid st1 of
               (Inl ex, st2) \<Rightarrow> (Inl ex, st2)
             | (Inr found, st2) \<Rightarrow>
                 (case pdf_to_markdown e pdf_path st2 of
                    Inl ex \<Rightarrow> (Inr (''Error extracting text: '' @ exn_str e ex), st2)
                  | Inr txt \<Rightarrow>
                      if py_strip txt = []
                      then (Inr (''PDF downloaded to '' @ pdf_path @ '', but no text could be extracted.''), st2)
                      else (case semantic_metadata e found pdf_path of
                              Inl ex \<Rightarrow> (Inr (''Error extracting text: '' @ exn_str e ex), st2)
                            | Inr md \<Rightarrow> (Inr (md @ txt), st2)))))"

section \<open>Reference notions and example worlds\<close>

definition url_scheme :: "string \<Rightarrow> string" where
  \<comment> \<open>the scheme of an absolute URL: what stands before its first colon\<close>
  "url_scheme u = takeWhile (\<lambda>c. c \<noteq> CHR '':'') u"

definition resolve_against_base :: "string \<Rightarrow> string \<Rightarrow> string" where
  \<comment> \<open>resolution of a reference against a base URL, as the specification words it: a
      protocol-relative reference takes the scheme of the base, a root-relative one is
      appended to the base, any other is kept\<close>
  "resolve_against_base base_url u =
     (if startswith u ''//'' then url_scheme base_url @ '':'' @ u
      else if startswith u ''/'' then base_url @ u
      else u)"

definition doi_or_arxiv :: "string \<Rightarrow> bool" where
  \<comment> \<open>a URL that contains the DOI resolver's or arXiv's domain\<close>
  "doi_or_arxiv u = (contains u ''doi.org'' \<or> contains u ''arxiv.org'')"

definition ascii_word :: "char \<Rightarrow> bool" where
  \<comment> \<open>the class \<open>\w\<close> on ASCII: a digit, a letter or the underscore\<close>
  "ascii_word c =
     (let n = (of_char c :: nat)
      in (48 \<le> n \<and> n \<le> 57) \<or> (65 \<le> n \<and> n \<le> 90) \<or> (97 \<le> n \<and> n \<le> 122) \<or> n = 95)"

definition env0 :: env where
  \<comment> \<open>a world with no network: every request fails, \<open>curl\<close> exits with an error\<close>
  "env0 = \<lparr>now = (\<lambda>k. 0), http = (\<lambda>k req. Inl RequestException),
           parse_html = (\<lambda>c. Inr []), to_markdown = (\<lambda>b. Inr b), has_curl = True,
           curl = (\<lambda>u p. CurlExit 22 None),
           md5_hex = (\<lambda>b. ''d41d8cd98f00b204e9800998ecf8427e''),
           re_word = ascii_word,
           exn_str = (\<lambda>ex. ''failure''), path_str = (\<lambda>p. p),
           home_downloads = ''/home/user/paper_downloads'', strptime = (\<lambda>d f. None),
           str_datetime = (\<lambda>d. ''date''), py_repr = (\<lambda>v. ''value''),
           dir_size = (\<lambda>p. 4096)\<rparr>"

definition st0 :: state where
  \<comment> \<open>the start: nothing read, sent or slept, and an empty file system\<close>
  "st0 = \<lparr>clock_reads = 0, requests = [], sleeps = [], last_request_time = 0,
          files = Map.empty, dirs = (\<lambda>p. False)\<rparr>"

definition always_429 :: "env \<Rightarrow> bool" where
  \<comment> \<open>every request, whenever it is sent, is answered with status 429\<close>
  "always_429 e = (\<forall>k req. \<exists>r. http e k req = Inr r \<and> status_code r = 429)"

definition backoff_waits :: "state \<Rightarrow> real list" where
  \<comment> \<open>the waits slept in the 429 branch of \<open>_make_request\<close>, oldest first\<close>
  "backoff_waits st = map snd (filter (\<lambda>sl. fst sl = Backoff429) (sleeps st))"

definition env429 :: env where
  \<comment> \<open>a service that is always rate limiting\<close>
  "env429 = env0\<lparr>http := \<lambda>k req. Inr \<lparr>status_code = 429, content_type = None, content = [],
               body_text = [], json_body = None, stream_chunks = [], stream_error = None\<rparr>\<rparr>"

definition onclick_of :: "element \<Rightarrow> string" where
  \<comment> \<open>\<open>button.get('onclick', '')\<close>\<close>
  "onclick_of el = (case attr_get el ''onclick'' of None \<Rightarrow> [] | Some v \<Rightarrow> v)"

definition embed_candidate :: "element list \<Rightarrow> string option" where
  \<comment> \<open>the source of the first \<open>embed\<close> of type \<open>application/pdf\<close>, when it has one\<close>
  "embed_candidate soup =
     tag_src (find (\<lambda>el. tag el = ''embed'' \<and> attr_get el ''type'' = Some ''application/pdf'') soup)"

definition iframe_candidate :: "element list \<Rightarrow> string option" where
  \<comment> \<open>the source of the first \<open>iframe\<close>, when it has one\<close>
  "iframe_candidate soup = tag_src (find (\<lambda>el. tag el = ''iframe'') soup)"

definition button_candidate :: "element list \<Rightarrow> string option" where
  \<comment> \<open>the navigation URL of the first button whose \<open>onclick\<close> mentions \<open>pdf\<close> in any case
      and assigns \<open>location.href\<close>\<close>
  "button_candidate soup =
     (case find (\<lambda>el. tag el = ''button'' \<and> contains (py_lower (onclick_of el)) ''pdf''
                     \<and> re_search_href (onclick_of el) \<noteq> None) soup of
        None \<Rightarrow> None
      | Some el \<Rightarrow> re_search_href (onclick_of el))"

definition anchor_candidate :: "element list \<Rightarrow> string option" where
  \<comment> \<open>the \<open>href\<close> of the first anchor whose \<open>href\<close> mentions \<open>pdf\<close> in any case\<close>
  "anchor_candidate soup =
     (case find (\<lambda>el. tag el = ''a''
                     \<and> (case attr_get el ''href'' of
                           None \<Rightarrow> False
                         | Some h \<Rightarrow> contains (py_lower h) ''pdf'')) soup of
        None \<Rightarrow> None
      | Some el \<Rightarrow> attr_get el ''href'')"

definition claimed_button :: "element list \<Rightarrow> string option" where
  \<comment> \<open>as the specification words it: the navigation URL of the first button whose
      \<open>onclick\<close> contains one\<close>
  "claimed_button soup =
     (case find (\<lambda>el. tag el = ''button'' \<and> re_search_href (onclick_of el) \<noteq> None) soup of
        None \<Rightarrow> None
      | Some el \<Rightarrow> re_search_href (onclick_of el))"

definition claimed_pdf_link :: "string \<Rightarrow> element list \<Rightarrow> string option" where
  \<comment> \<open>the priority order as the specification words it\<close>
  "claimed_pdf_link b soup =
     (case embed_candidate soup of Some s \<Rightarrow> Some (normalize_url b s) | None \<Rightarrow>
      case iframe_candidate soup of Some s \<Rightarrow> Some (normalize_url b s) | None \<Rightarrow>
      case claimed_button soup of Some g \<Rightarrow> Some (normalize_url b g) | None \<Rightarrow>
      map_option (normalize_url b) (anchor_candidate soup))"

definition page_env :: "element list \<Rightarrow> env" where
  \<comment> \<open>a mirror that answers every request with a page of the given elements\<close>
  "page_env soup =
     env0\<lparr>http := \<lambda>k req. Inr \<lparr>status_code = 200, content_type = Some ''text/html'',
                                content = ''<html>'', body_text = ''<html>'', json_body = None,
                                stream_chunks = [], stream_error = None\<rparr>,
          parse_html := \<lambda>c. Inr soup\<rparr>"

definition button_page :: "element list" where
  "button_page =
     [\<lparr>tag = ''button'',
       attrs = [(''onclick'', ''location.href='' @ [quote_char] @ ''/download/1'' @ [quote_char])]\<rparr>,
      \<lparr>tag = ''a'', attrs = [(''href'', ''/paper.pdf'')]\<rparr>]"

definition embed_page :: "element list" where
  "embed_page =
     [\<lparr>tag = ''iframe'', attrs = [(''src'', ''/viewer'')]\<rparr>,
      \<lparr>tag = ''embed'', attrs = [(''type'', ''application/pdf''), (''src'', ''//cdn.example/a.pdf'')]\<rparr>]"

section \<open>Properties\<close>

subsection \<open>Strings\<close>

lemma startswith_iff: "startswith s p \<longleftrightarrow> (\<exists>t. s = p @ t)"
  by (induction s p rule: startswith.induct) auto

lemma contains_iff: "contains s sub \<longleftrightarrow> (\<exists>a b. s = a @ sub @ b)"
proof (induction s)
  case Nil
  then show ?case by auto
next
  case (Cons c cs)
  show ?case
  proof
    assume "contains (c # cs) sub"
    then consider "startswith (c # cs) sub" | "contains cs sub" by auto
    then show "\<exists>a b. c # cs = a @ sub @ b"
    proof cases
      case 1
      then obtain t where "c # cs = sub @ t" by (auto simp: startswith_iff)
      then have "c # cs = [] @ sub @ t" by simp
      then show ?thesis by blast
    next
      case 2
      then obtain a b where "cs = a @ sub @ b" using Cons.IH by blast
      then have "c # cs = (c # a) @ sub @ b" by simp
      then show ?thesis by blast
    qed
  next
    assume "\<exists>a b. c # cs = a @ sub @ b"
    then obtain a b where ab: "c # cs = a @ sub @ b" by blast
    show "contains (c # cs) sub"
    proof (cases a)
      case Nil
      with ab have "startswith (c # cs) sub" by (auto simp: startswith_iff)
      then show ?thesis by simp
    next
      case (Cons x xs)
      with ab have "cs = xs @ sub @ b" by simp
      then have "contains cs sub" using Cons.IH by blast
      then show ?thesis by simp
    qed
  qed
qed

lemma endswith_iff: "endswith s p \<longleftrightarrow> (\<exists>t. s = t @ p)"
proof -
  have "endswith s p \<longleftrightarrow> (\<exists>t. rev s = rev p @ t)"
    by (simp add: endswith_def startswith_iff)
  also have "\<dots> \<longleftrightarrow> (\<exists>t. s = t @ p)"
  proof
    assume "\<exists>t. rev s = rev p @ t"
    then obtain t where "rev s = rev p @ t" by blast
    then have "rev (rev s) = rev (rev p @ t)" by simp
    then have "s = rev t @ p" by simp
    then show "\<exists>t. s = t @ p" by blast
  next
    assume "\<exists>t. s = t @ p"
    then obtain t where "s = t @ p" by blast
    then have "rev s = rev p @ rev t" by simp
    then show "\<exists>t. rev s = rev p @ t" by blast
  qed
  finally show ?thesis .
qed

lemma endswith_pdf_contains: "endswith h ''.pdf'' \<Longrightarrow> contains (py_lower h) ''pdf''"
proof -
  assume "endswith h ''.pdf''"
  then obtain t where "h = t @ ''.pdf''" by (auto simp: endswith_iff)
  then have "py_lower h = (py_lower t @ ''.'') @ ''pdf'' @ []"
    by (simp add: py_lower_def lower_char_def)
  then show ?thesis unfolding contains_iff by blast
qed

subsection \<open>check\_paper\_year\<close>

text \<open>
  C7. For every optional published date and every cutoff year, \<open>check_paper_year\<close> is true
  exactly when the date is present and its year is strictly below the cutoff; 2022 against
  2023 is true, 2023 against 2023 is false, and an absent date is false.
\<close>

theorem check_paper_year_iff:
  "(check_paper_year d cutoff \<longleftrightarrow> (\<exists>dt. d = Some dt \<and> year dt < cutoff))
   \<and> check_paper_year (Some \<lparr>year = 2022, month = m, day = dd\<rparr>) 2023
   \<and> \<not> check_paper_year (Some \<lparr>year = 2023, month = m, day = dd\<rparr>) 2023
   \<and> \<not> check_paper_year None cutoff"
  by (simp add: check_paper_year_def split: option.split)

subsection \<open>\_normalize\_url\<close>

text \<open>
  C9, as the code has it. A URL that starts with two slashes gets the fixed scheme
  \<open>https:\<close> in front, whatever the mirror is; a URL that starts with one slash is appended
  to the mirror's base URL; every other URL is returned unchanged.
\<close>

theorem normalize_url_cases:
  "(startswith u ''//'' \<longrightarrow> normalize_url b u = ''https:'' @ u)
   \<and> (\<not> startswith u ''//'' \<and> startswith u ''/'' \<longrightarrow> normalize_url b u = b @ u)
   \<and> (\<not> startswith u ''/'' \<longrightarrow> normalize_url b u = u)"
  by (cases u) (auto simp: normalize_url_def)

theorem normalize_url_cases_witness:
  "startswith ''//cdn.example/a.pdf'' ''//''
   \<and> normalize_url ''https://sci-hub.se'' ''//cdn.example/a.pdf'' = ''https://cdn.example/a.pdf''
   \<and> \<not> startswith ''/downloads/a.pdf'' ''//'' \<and> startswith ''/downloads/a.pdf'' ''/''
   \<and> normalize_url ''https://sci-hub.se'' ''/downloads/a.pdf''
       = ''https://sci-hub.se/downloads/a.pdf''
   \<and> \<not> startswith ''https://x.org/a.pdf'' ''/''
   \<and> normalize_url ''https://sci-hub.se'' ''https://x.org/a.pdf'' = ''https://x.org/a.pdf''"
  using normalize_url_cases[of "''//cdn.example/a.pdf''" "''https://sci-hub.se''"]
        normalize_url_cases[of "''/downloads/a.pdf''" "''https://sci-hub.se''"]
        normalize_url_cases[of "''https://x.org/a.pdf''" "''https://sci-hub.se''"]
  by simp

text \<open>
  C9, as stated, fails for a mirror that is served over plain HTTP: resolved against the
  base \<open>http://sci-hub.example\<close>, the reference \<open>//cdn.example/a.pdf\<close> is
  \<open>http://cdn.example/a.pdf\<close>, and the code returns \<open>https://cdn.example/a.pdf\<close>.
\<close>

theorem normalize_url_ignores_base_scheme:
  "normalize_url ''http://sci-hub.example'' ''//cdn.example/a.pdf'' = ''https://cdn.example/a.pdf''
   \<and> resolve_against_base ''http://sci-hub.example'' ''//cdn.example/a.pdf''
       = ''http://cdn.example/a.pdf''
   \<and> normalize_url ''http://sci-hub.example'' ''//cdn.example/a.pdf''
       \<noteq> resolve_against_base ''http://sci-hub.example'' ''//cdn.example/a.pdf''"
  by (simp add: normalize_url_def resolve_against_base_def url_scheme_def)

subsection \<open>\_download\_with\_curl\<close>

text \<open>
  C5. When \<open>curl\<close> is installed and exits with code 0, the attempt succeeds exactly when the
  file at the output path is larger than 1000 bytes (the code's 1KB); a file of at most 1000
  bytes is deleted and the attempt fails, a larger one is kept. Whatever \<open>curl\<close> does, the
  attempt succeeds only with more than 1000 bytes at the output path.
\<close>

theorem curl_size_threshold:
  "(has_curl e \<and> curl e u p = CurlExit 0 written
      \<and> (case written of Some b \<Rightarrow> Some b | None \<Rightarrow> files st p) = Some bytes
    \<longrightarrow> fst (download_with_curl e (JStr u) p st) = (length bytes > 1000)
        \<and> (length bytes \<le> 1000 \<longrightarrow> files (snd (download_with_curl e (JStr u) p st)) p = None)
        \<and> (length bytes > 1000
             \<longrightarrow> files (snd (download_with_curl e (JStr u) p st)) p = Some bytes))
   \<and> (fst (download_with_curl e v p st)
        \<longrightarrow> (\<exists>n. getsize e (snd (download_with_curl e v p st)) p = Inr n \<and> n > 1000))"
  by (auto simp: download_with_curl_def curl_try_def path_exists_def getsize_def os_remove_def
                 Let_def
           split: option.splits json.splits curl_outcome.splits sum.splits if_splits)

theorem curl_size_threshold_witness:
  "has_curl (env0\<lparr>curl := \<lambda>u p. CurlExit 0 (Some ''<html>gone</html>'')\<rparr>)
   \<and> curl (env0\<lparr>curl := \<lambda>u p. CurlExit 0 (Some ''<html>gone</html>'')\<rparr>)
        ''https://x.org/a.pdf'' ''out/a.pdf'' = CurlExit 0 (Some ''<html>gone</html>'')
   \<and> \<not> fst (download_with_curl (env0\<lparr>curl := \<lambda>u p. CurlExit 0 (Some ''<html>gone</html>'')\<rparr>)
              (JStr ''https://x.org/a.pdf'') ''out/a.pdf'' st0)
   \<and> files (snd (download_with_curl (env0\<lparr>curl := \<lambda>u p. CurlExit 0 (Some ''<html>gone</html>'')\<rparr>)
              (JStr ''https://x.org/a.pdf'') ''out/a.pdf'' st0)) ''out/a.pdf'' = None
   \<and> fst (download_with_curl (env0\<lparr>curl := \<lambda>u p. CurlExit 0 (Some (replicate 1001 (CHR ''a'')))\<rparr>)
              (JStr ''https://x.org/a.pdf'') ''out/a.pdf'' st0)"
  using curl_size_threshold[of "env0\<lparr>curl := \<lambda>u p. CurlExit 0 (Some ''<html>gone</html>'')\<rparr>"
          "''https://x.org/a.pdf''" "''out/a.pdf''" "Some ''<html>gone</html>''" st0
          "''<html>gone</html>''" "JStr ''https://x.org/a.pdf''"]
        curl_size_threshold[of "env0\<lparr>curl := \<lambda>u p. CurlExit 0 (Some (replicate 1001 (CHR ''a'')))\<rparr>"
          "''https://x.org/a.pdf''" "''out/a.pdf''" "Some (replicate 1001 (CHR ''a''))" st0
          "replicate 1001 (CHR ''a'')" "JStr ''https://x.org/a.pdf''"]
  by (simp add: env0_def)

subsection \<open>\_extract\_pdf\_url\<close>

lemma prefer_url_first:
  "\<forall>x\<in>set pre. \<not> doi_or_arxiv x \<Longrightarrow> doi_or_arxiv m \<Longrightarrow>
   prefer_url (pre @ m # post) =
     Some (if contains m ''arxiv.org/abs/'' then py_replace ''/abs/'' ''/pdf/'' m @ ''.pdf'' else m)"
  by (induction pre) (auto simp: doi_or_arxiv_def)

lemma prefer_url_none:
  "\<forall>x\<in>set ms. \<not> doi_or_arxiv x \<Longrightarrow> prefer_url ms = None"
  by (induction ms) (auto simp: doi_or_arxiv_def)

lemma pick_url_first:
  "\<forall>x\<in>set pre. \<not> doi_or_arxiv x \<Longrightarrow> doi_or_arxiv m \<Longrightarrow>
   pick_url (pre @ m # post) =
     (if contains m ''arxiv.org/abs/'' then py_replace ''/abs/'' ''/pdf/'' m @ ''.pdf'' else m)"
  using prefer_url_first[of pre m post]
  by (cases "pre @ m # post") (auto simp: pick_url_def)

lemma pick_url_none:
  "\<forall>x\<in>set (m # post). \<not> doi_or_arxiv x \<Longrightarrow> pick_url (m # post) = m"
  using prefer_url_none[of "m # post"] by (simp add: pick_url_def)

lemma extract_url_direct:
  "map_of kvs ''url'' = Some v \<Longrightarrow> truthy v \<Longrightarrow> extract_pdf_url (JObj kvs) = Inr v"
  by (cases kvs) (auto simp: extract_pdf_url_def bind_def)

lemma extract_url_disclaimer:
  "map_of kvs ''url'' = None \<or> map_of kvs ''url'' = Some JNull \<or> map_of kvs ''url'' = Some (JStr [])
   \<Longrightarrow> map_of kvs ''disclaimer'' = Some (JStr d)
   \<Longrightarrow> extract_pdf_url (JObj kvs) = Inr (JStr (pick_url (findall_urls d)))"
  by (cases kvs; cases d) (auto simp: extract_pdf_url_def bind_def pick_url_def findall_urls_def)

lemma extract_url_nothing:
  "map_of kvs ''url'' = None \<or> map_of kvs ''url'' = Some JNull \<or> map_of kvs ''url'' = Some (JStr [])
   \<Longrightarrow> map_of kvs ''disclaimer'' = None
   \<Longrightarrow> extract_pdf_url (JObj kvs) = Inr (JStr [])"
  by (cases kvs) (auto simp: extract_pdf_url_def bind_def)

text \<open>
  C8. For an \<open>openAccessPdf\<close> dict, \<open>_extract_pdf_url\<close> returns the \<open>url\<close> field when it is
  present and truthy. Otherwise it scans the \<open>disclaimer\<close> string for URLs: with no match
  the result is the empty string; the first match that contains \<open>doi.org\<close> or \<open>arxiv.org\<close>
  is preferred, and returned with \<open>/abs/\<close> replaced by \<open>/pdf/\<close> and \<open>.pdf\<close> appended when it
  contains \<open>arxiv.org/abs/\<close>; when no match is preferred the first match is returned. With
  neither field, and for \<open>None\<close>, the result is the empty string.
\<close>

theorem extract_pdf_url_behaviour:
  "(map_of kvs ''url'' = Some v \<and> truthy v \<longrightarrow> extract_pdf_url (JObj kvs) = Inr v)
   \<and> ((map_of kvs ''url'' = None \<or> map_of kvs ''url'' = Some JNull
        \<or> map_of kvs ''url'' = Some (JStr []))
       \<and> map_of kvs ''disclaimer'' = Some (JStr d)
      \<longrightarrow> (findall_urls d = [] \<longrightarrow> extract_pdf_url (JObj kvs) = Inr (JStr []))
        \<and> (findall_urls d = pre @ m # post \<and> (\<forall>x\<in>set pre. \<not> doi_or_arxiv x) \<and> doi_or_arxiv m
             \<longrightarrow> extract_pdf_url (JObj kvs) =
                   Inr (JStr (if contains m ''arxiv.org/abs/''
                              then py_replace ''/abs/'' ''/pdf/'' m @ ''.pdf'' else m)))
        \<and> (findall_urls d = m # post \<and> (\<forall>x\<in>set (m # post). \<not> doi_or_arxiv x)
             \<longrightarrow> extract_pdf_url (JObj kvs) = Inr (JStr m)))
   \<and> ((map_of kvs ''url'' = None \<or> map_of kvs ''url'' = Some JNull
        \<or> map_of kvs ''url'' = Some (JStr []))
       \<and> map_of kvs ''disclaimer'' = None
      \<longrightarrow> extract_pdf_url (JObj kvs) = Inr (JStr []))
   \<and> extract_pdf_url JNull = Inr (JStr [])"
proof (intro conjI impI)
  show "extract_pdf_url JNull = Inr (JStr [])"
    by (simp add: extract_pdf_url_def)
next
  assume "map_of kvs ''url'' = Some v \<and> truthy v"
  then show "extract_pdf_url (JObj kvs) = Inr v"
    using extract_url_direct by blast
next
  assume a: "(map_of kvs ''url'' = None \<or> map_of kvs ''url'' = Some JNull
        \<or> map_of kvs ''url'' = Some (JStr [])) \<and> map_of kvs ''disclaimer'' = None"
  then show "extract_pdf_url (JObj kvs) = Inr (JStr [])"
    using extract_url_nothing by blast
next
  assume a: "(map_of kvs ''url'' = None \<or> map_of kvs ''url'' = Some JNull
        \<or> map_of kvs ''url'' = Some (JStr [])) \<and> map_of kvs ''disclaimer'' = Some (JStr d)"
  then have eq: "extract_pdf_url (JObj kvs) = Inr (JStr (pick_url (findall_urls d)))"
    using extract_url_disclaimer by blast
  { assume "findall_urls d = []"
    then show "extract_pdf_url (JObj kvs) = Inr (JStr [])"
      by (simp add: eq pick_url_def) }
  { assume "findall_urls d = pre @ m # post \<and> (\<forall>x\<in>set pre. \<not> doi_or_arxiv x) \<and> doi_or_arxiv m"
    then show "extract_pdf_url (JObj kvs) =
                   Inr (JStr (if contains m ''arxiv.org/abs/''
                              then py_replace ''/abs/'' ''/pdf/'' m @ ''.pdf'' else m))"
      using pick_url_first[of pre m post] by (simp add: eq) }
  { assume "findall_urls d = m # post \<and> (\<forall>x\<in>set (m # post). \<not> doi_or_arxiv x)"
    then show "extract_pdf_url (JObj kvs) = Inr (JStr m)"
      using pick_url_none[of m post] by (simp add: eq) }
qed

theorem extract_pdf_url_behaviour_witness:
  "extract_pdf_url (JObj [(''url'', JStr ''https://x.org/a.pdf''), (''status'', JStr ''GREEN'')])
     = Inr (JStr ''https://x.org/a.pdf'')
   \<and> findall_urls ''Notice: the paper is at https://example.org/p/1 and at https://arxiv.org/abs/2106.15928, see also (https://doi.org/10.1/x).''
       = [''https://example.org/p/1'', ''https://arxiv.org/abs/2106.15928'', ''https://doi.org/10.1/x'']
   \<and> extract_pdf_url (JObj [(''url'', JStr []), (''disclaimer'', JStr ''Notice: the paper is at https://example.org/p/1 and at https://arxiv.org/abs/2106.15928, see also (https://doi.org/10.1/x).'')])
       = Inr (JStr ''https://arxiv.org/pdf/2106.15928.pdf'')"
proof -
  let ?d = "''Notice: the paper is at https://example.org/p/1 and at https://arxiv.org/abs/2106.15928, see also (https://doi.org/10.1/x).''"
  have f: "findall_urls ?d = [''https://example.org/p/1''] @ ''https://arxiv.org/abs/2106.15928'' # [''https://doi.org/10.1/x'']"
    by (simp add: findall_urls_def url_here_def url_char_def py_isspace_def)
  have n: "\<forall>x\<in>set [''https://example.org/p/1'']. \<not> doi_or_arxiv x"
    by (simp add: doi_or_arxiv_def)
  have y: "doi_or_arxiv ''https://arxiv.org/abs/2106.15928''"
    by (simp add: doi_or_arxiv_def)
  have r: "(if contains ''https://arxiv.org/abs/2106.15928'' ''arxiv.org/abs/''
            then py_replace ''/abs/'' ''/pdf/'' ''https://arxiv.org/abs/2106.15928'' @ ''.pdf''
            else ''https://arxiv.org/abs/2106.15928'') = ''https://arxiv.org/pdf/2106.15928.pdf''"
    by (simp add: py_replace_def)
  show ?thesis
    using extract_pdf_url_behaviour[of "[(''url'', JStr ''https://x.org/a.pdf''), (''status'', JStr ''GREEN'')]"
            "JStr ''https://x.org/a.pdf''"]
          extract_pdf_url_behaviour[of "[(''url'', JStr []), (''disclaimer'', JStr ?d)]" _ ?d
            "[''https://example.org/p/1'']" "''https://arxiv.org/abs/2106.15928''" "[''https://doi.org/10.1/x'']"]
          f n y r
    by simp
qed

subsection \<open>\_make\_request\<close>

lemma backoff_waits_updates [simp]:
  "backoff_waits (st\<lparr>requests := q\<rparr>) = backoff_waits st"
  "backoff_waits (st\<lparr>clock_reads := c\<rparr>) = backoff_waits st"
  "backoff_waits (st\<lparr>last_request_time := t\<rparr>) = backoff_waits st"
  by (simp_all add: backoff_waits_def)

lemma rate_limit_wait_frame:
  "requests (rate_limit_wait e s st) = requests st"
  "backoff_waits (rate_limit_wait e s st) = backoff_waits st"
  "clock_reads (rate_limit_wait e s st) = clock_reads st + 2"
  by (simp_all add: rate_limit_wait_def time_time_def time_sleep_def backoff_waits_def Let_def)

lemma try_get_429:
  "always_429 e \<Longrightarrow> try_get e req st = (Limited, st\<lparr>requests := requests st @ [req]\<rparr>)"
proof -
  assume "always_429 e"
  then obtain r where "http e (length (requests st)) req = Inr r" "status_code r = 429"
    unfolding always_429_def by blast
  then show ?thesis by (simp add: try_get_def session_get_def)
qed

lemma make_request_429_general:
  assumes "always_429 e"
  shows "n = nat (max_retries s - int rc) \<Longrightarrow>
         \<exists>st' ws. make_request e s ep ps rc st = (Inr None, st')
            \<and> requests st' = requests st @ replicate (Suc n) (BASE_URL @ ''/'' @ ep, ps)
            \<and> backoff_waits st' = backoff_waits st @ ws
            \<and> length ws = n
            \<and> (\<forall>k<n. 2 ^ (rc + k) \<le> ws ! k \<and> ws ! k < 2 ^ (rc + k) + 1)"
proof (induction n arbitrary: rc st)
  case 0
  then have "\<not> int rc < max_retries s" by simp
  then show ?case
    by (subst make_request.simps)
       (simp add: try_get_429[OF assms] rate_limit_wait_frame)
next
  case (Suc n)
  then have lt: "int rc < max_retries s" and n: "n = nat (max_retries s - int (Suc rc))"
    by simp_all
  let ?req = "(BASE_URL @ ''/'' @ ep, ps)"
  let ?st1 = "(rate_limit_wait e s st)\<lparr>requests := requests (rate_limit_wait e s st) @ [?req]\<rparr>"
  let ?t = "now e (clock_reads ?st1)"
  let ?w = "2 ^ rc + frac ?t"
  let ?st2 = "time_sleep Backoff429 ?w (?st1\<lparr>clock_reads := Suc (clock_reads ?st1)\<rparr>)"
  have unfold: "make_request e s ep ps rc st = make_request e s ep ps (Suc rc) ?st2"
    by (subst make_request.simps) (simp add: try_get_429[OF assms] lt time_time_def)
  from Suc.IH[OF n, of ?st2] obtain st' ws where
    r: "make_request e s ep ps (Suc rc) ?st2 = (Inr None, st')"
    and q: "requests st' = requests ?st2 @ replicate (Suc n) ?req"
    and b: "backoff_waits st' = backoff_waits ?st2 @ ws"
    and l: "length ws = n"
    and w: "\<forall>k<n. 2 ^ (Suc rc + k) \<le> ws ! k \<and> ws ! k < 2 ^ (Suc rc + k) + 1"
    by blast
  have q2: "requests ?st2 = requests st @ [?req]"
    by (simp add: time_sleep_def rate_limit_wait_frame)
  have b2: "backoff_waits ?st2 = backoff_waits st @ [?w]"
    using rate_limit_wait_frame(2)[of e s st]
    by (simp add: time_sleep_def backoff_waits_def)
  have bounds: "\<forall>k<Suc n. 2 ^ (rc + k) \<le> (?w # ws) ! k \<and> (?w # ws) ! k < 2 ^ (rc + k) + 1"
  proof (intro allI impI)
    fix k assume "k < Suc n"
    show "2 ^ (rc + k) \<le> (?w # ws) ! k \<and> (?w # ws) ! k < 2 ^ (rc + k) + 1"
    proof (cases k)
      case 0
      then show ?thesis using frac_ge_0[of ?t] frac_lt_1[of ?t] by simp
    next
      case (Suc j)
      with \<open>k < Suc n\<close> have "j < n" by simp
      with w Suc show ?thesis by simp
    qed
  qed
  show ?case
    apply (rule exI[of _ st'], rule exI[of _ "?w # ws"])
    using r q b l bounds unfolding unfold q2 b2
    by (simp add: replicate_app_Cons_same)
qed


text \<open>
  C3. When every attempt is answered with status 429, \<open>_make_request\<close> returns \<open>None\<close>
  without raising, after one request and \<open>max_retries\<close> retries of it (none when
  \<open>max_retries\<close> is not positive). The wait before retry \<open>k\<close> (counted from 0) is
  \<open>2 ^ k\<close> plus a jitter in \<open>[0, 1)\<close>, the fractional part of the clock, so each wait is
  strictly longer than the one before.
\<close>

theorem make_request_rate_limited:
  assumes "always_429 e"
  shows "\<exists>st' ws. make_request e s ep ps 0 st = (Inr None, st')
            \<and> requests st' = requests st @ replicate (Suc (nat (max_retries s))) (BASE_URL @ ''/'' @ ep, ps)
            \<and> backoff_waits st' = backoff_waits st @ ws
            \<and> length ws = nat (max_retries s)
            \<and> (\<forall>k<length ws. 2 ^ k \<le> ws ! k \<and> ws ! k < 2 ^ k + 1)
            \<and> sorted_wrt (<) ws"
proof -
  from make_request_429_general[OF assms, of "nat (max_retries s)" s 0 ep ps st]
  obtain st' ws where r: "make_request e s ep ps 0 st = (Inr None, st')"
    and q: "requests st' = requests st @ replicate (Suc (nat (max_retries s))) (BASE_URL @ ''/'' @ ep, ps)"
    and b: "backoff_waits st' = backoff_waits st @ ws"
    and l: "length ws = nat (max_retries s)"
    and w: "\<forall>k<nat (max_retries s). 2 ^ k \<le> ws ! k \<and> ws ! k < 2 ^ k + 1"
    by auto
  have "ws ! i < ws ! j" if "i < j" "j < length ws" for i j
  proof -
    have "ws ! i < 2 ^ i + 1" using w that l by simp
    also have "(2::real) ^ i + 1 \<le> 2 ^ Suc i" by simp
    also have "(2::real) ^ Suc i \<le> 2 ^ j"
      using that(1) by (intro power_increasing) simp_all
    also have "(2::real) ^ j \<le> ws ! j" using w that l by simp
    finally show ?thesis .
  qed
  then have "sorted_wrt (<) ws"
    by (simp add: sorted_wrt_iff_nth_less)
  with r q b l w show ?thesis by auto
qed

theorem make_request_rate_limited_witness:
  "always_429 env429
   \<and> fst (make_request env429 \<lparr>api_key = [], max_retries = 3\<rparr> ''paper/search'' [] 0 st0)
       = Inr None
   \<and> length (requests (snd (make_request env429 \<lparr>api_key = [], max_retries = 3\<rparr>
                               ''paper/search'' [] 0 st0))) = 4
   \<and> backoff_waits (snd (make_request env429 \<lparr>api_key = [], max_retries = 3\<rparr>
                            ''paper/search'' [] 0 st0)) = [1, 2, 4]"
proof -
  have h: "always_429 env429"
    by (simp add: always_429_def env429_def)
  have ev: "length (requests (snd (make_request env429 \<lparr>api_key = [], max_retries = 3\<rparr>
                               ''paper/search'' [] 0 st0))) = 4
      \<and> backoff_waits (snd (make_request env429 \<lparr>api_key = [], max_retries = 3\<rparr>
                            ''paper/search'' [] 0 st0)) = [1, 2, 4]"
    by (simp add: make_request.simps try_get_def session_get_def rate_limit_wait_def
          time_time_def time_sleep_def env429_def env0_def st0_def min_request_interval_def
          backoff_waits_def Let_def)
  from make_request_rate_limited[OF h, of "\<lparr>api_key = [], max_retries = 3\<rparr>"
         "''paper/search''" "[]" st0]
  obtain st' where "make_request env429 \<lparr>api_key = [], max_retries = 3\<rparr>
                      ''paper/search'' [] 0 st0 = (Inr None, st')"
    by blast
  with h ev show ?thesis by simp
qed

subsection \<open>\_get\_pdf\_url\<close>

lemma scan_buttons_find:
  "scan_buttons b (filter (\<lambda>el. tag el = ''button'') soup)
     = map_option (normalize_url b) (button_candidate soup)"
proof (induction soup)
  case Nil
  then show ?case by (simp add: button_candidate_def)
next
  case (Cons el soup)
  then show ?case
    by (auto simp: button_candidate_def onclick_of_def split: option.splits)
qed

lemma scan_links_find:
  "scan_links b (List.map_filter (\<lambda>el. if tag el = ''a'' then attr_get el ''href'' else None) soup)
     = map_option (normalize_url b) (anchor_candidate soup)"
proof (induction soup)
  case Nil
  then show ?case by (simp add: anchor_candidate_def List.map_filter_simps)
next
  case (Cons el soup)
  then show ?case
    using endswith_pdf_contains
    by (auto simp: anchor_candidate_def List.map_filter_simps split: option.splits)
qed

lemma find_pdf_link_priority:
  "find_pdf_link b soup =
     (case embed_candidate soup of Some s \<Rightarrow> Some (normalize_url b s) | None \<Rightarrow>
      case iframe_candidate soup of Some s \<Rightarrow> Some (normalize_url b s) | None \<Rightarrow>
      case button_candidate soup of Some g \<Rightarrow> Some (normalize_url b g) | None \<Rightarrow>
      map_option (normalize_url b) (anchor_candidate soup))"
  by (simp add: find_pdf_link_def embed_candidate_def iframe_candidate_def scan_buttons_find
        scan_links_find Let_def split: option.splits)


text \<open>
  C6, as the code has it. \<open>_get_pdf_url\<close> sends one request and never raises. When the
  answer has status 200, its text lacks the marker \<open>article not found\<close> and the page
  parses, the result is the normalised URL of the first of these that exists: the source of
  the first \<open>embed\<close> of type \<open>application/pdf\<close>; the source of the first \<open>iframe\<close>; the
  \<open>location.href\<close> target of the first button whose \<open>onclick\<close> mentions \<open>pdf\<close> (in any case)
  and has such a target; the \<open>href\<close> of the first anchor whose \<open>href\<close> mentions \<open>pdf\<close>. With
  none of them the result is \<open>None\<close>, as it is when the request fails, the status is not
  200, the marker is present or the parser raises.
\<close>

theorem get_pdf_url_priority:
  "(http e (length (requests st)) (b @ ''/'' @ di, []) = Inr r \<and> status_code r = 200
      \<and> \<not> contains (py_lower (body_text r)) ''article not found''
      \<and> parse_html e (content r) = Inr soup
    \<longrightarrow> (embed_candidate soup = Some s
           \<longrightarrow> fst (get_pdf_url e b di st) = Some (normalize_url b s))
        \<and> (embed_candidate soup = None \<and> iframe_candidate soup = Some s
           \<longrightarrow> fst (get_pdf_url e b di st) = Some (normalize_url b s))
        \<and> (embed_candidate soup = None \<and> iframe_candidate soup = None
             \<and> button_candidate soup = Some s
           \<longrightarrow> fst (get_pdf_url e b di st) = Some (normalize_url b s))
        \<and> (embed_candidate soup = None \<and> iframe_candidate soup = None
             \<and> button_candidate soup = None \<and> anchor_candidate soup = Some s
           \<longrightarrow> fst (get_pdf_url e b di st) = Some (normalize_url b s))
        \<and> (embed_candidate soup = None \<and> iframe_candidate soup = None
             \<and> button_candidate soup = None \<and> anchor_candidate soup = None
           \<longrightarrow> fst (get_pdf_url e b di st) = None))
   \<and> ((\<exists>ex. http e (length (requests st)) (b @ ''/'' @ di, []) = Inl ex)
       \<or> (\<exists>r. http e (length (requests st)) (b @ ''/'' @ di, []) = Inr r
              \<and> (status_code r \<noteq> 200
                  \<or> contains (py_lower (body_text r)) ''article not found''
                  \<or> (\<exists>ex. parse_html e (content r) = Inl ex)))
      \<longrightarrow> fst (get_pdf_url e b di st) = None)
   \<and> requests (snd (get_pdf_url e b di st)) = requests st @ [(b @ ''/'' @ di, [])]"
proof (intro conjI)
  show "requests (snd (get_pdf_url e b di st)) = requests st @ [(b @ ''/'' @ di, [])]"
    by (simp add: get_pdf_url_def session_get_def split: sum.splits)
next
  show "(\<exists>ex. http e (length (requests st)) (b @ ''/'' @ di, []) = Inl ex)
       \<or> (\<exists>r. http e (length (requests st)) (b @ ''/'' @ di, []) = Inr r
              \<and> (status_code r \<noteq> 200
                  \<or> contains (py_lower (body_text r)) ''article not found''
                  \<or> (\<exists>ex. parse_html e (content r) = Inl ex)))
      \<longrightarrow> fst (get_pdf_url e b di st) = None"
    by (auto simp: get_pdf_url_def session_get_def split: sum.splits)
next
  show "http e (length (requests st)) (b @ ''/'' @ di, []) = Inr r \<and> status_code r = 200
      \<and> \<not> contains (py_lower (body_text r)) ''article not found''
      \<and> parse_html e (content r) = Inr soup
    \<longrightarrow> (embed_candidate soup = Some s
           \<longrightarrow> fst (get_pdf_url e b di st) = Some (normalize_url b s))
        \<and> (embed_candidate soup = None \<and> iframe_candidate soup = Some s
           \<longrightarrow> fst (get_pdf_url e b di st) = Some (normalize_url b s))
        \<and> (embed_candidate soup = None \<and> iframe_candidate soup = None
             \<and> button_candidate soup = Some s
           \<longrightarrow> fst (get_pdf_url e b di st) = Some (normalize_url b s))
        \<and> (embed_candidate soup = None \<and> iframe_candidate soup = None
             \<and> button_candidate soup = None \<and> anchor_candidate soup = Some s
           \<longrightarrow> fst (get_pdf_url e b di st) = Some (normalize_url b s))
        \<and> (embed_candidate soup = None \<and> iframe_candidate soup = None
             \<and> button_candidate soup = None \<and> anchor_candidate soup = None
           \<longrightarrow> fst (get_pdf_url e b di st) = None)"
  proof
    assume a: "http e (length (requests st)) (b @ ''/'' @ di, []) = Inr r \<and> status_code r = 200
      \<and> \<not> contains (py_lower (body_text r)) ''article not found''
      \<and> parse_html e (content r) = Inr soup"
    then have "fst (get_pdf_url e b di st) = find_pdf_link b soup"
      by (simp add: get_pdf_url_def session_get_def)
    then show "(embed_candidate soup = Some s
           \<longrightarrow> fst (get_pdf_url e b di st) = Some (normalize_url b s))
        \<and> (embed_candidate soup = None \<and> iframe_candidate soup = Some s
           \<longrightarrow> fst (get_pdf_url e b di st) = Some (normalize_url b s))
        \<and> (embed_candidate soup = None \<and> iframe_candidate soup = None
             \<and> button_candidate soup = Some s
           \<longrightarrow> fst (get_pdf_url e b di st) = Some (normalize_url b s))
        \<and> (embed_candidate soup = None \<and> iframe_candidate soup = None
             \<and> button_candidate soup = None \<and> anchor_candidate soup = Some s
           \<longrightarrow> fst (get_pdf_url e b di st) = Some (normalize_url b s))
        \<and> (embed_candidate soup = None \<and> iframe_candidate soup = None
             \<and> button_candidate soup = None \<and> anchor_candidate soup = None
           \<longrightarrow> fst (get_pdf_url e b di st) = None)"
      by (simp add: find_pdf_link_priority)
  qed
qed

lemma button_page_facts:
  "embed_candidate button_page = None" "iframe_candidate button_page = None"
  "button_candidate button_page = None" "anchor_candidate button_page = Some ''/paper.pdf''"
  "claimed_button button_page = Some ''/download/1''"
  by (simp_all add: embed_candidate_def iframe_candidate_def button_candidate_def
        anchor_candidate_def claimed_button_def button_page_def tag_src_def attr_get_def
        onclick_of_def py_lower_def lower_char_def href_here_def quote_char_def)

lemma embed_page_facts:
  "embed_candidate embed_page = Some ''//cdn.example/a.pdf''"
  by (simp_all add: embed_candidate_def embed_page_def tag_src_def attr_get_def)

theorem get_pdf_url_priority_witness:
  "embed_candidate embed_page = Some ''//cdn.example/a.pdf''
   \<and> iframe_candidate embed_page = Some ''/viewer''
   \<and> fst (get_pdf_url (page_env embed_page) ''https://sci-hub.se'' ''10.1038/nature12373'' st0)
       = Some ''https://cdn.example/a.pdf''
   \<and> embed_candidate button_page = None \<and> iframe_candidate button_page = None
   \<and> button_candidate button_page = None
   \<and> anchor_candidate button_page = Some ''/paper.pdf''
   \<and> fst (get_pdf_url (page_env button_page) ''https://sci-hub.se'' ''10.1038/nature12373'' st0)
       = Some ''https://sci-hub.se/paper.pdf''
   \<and> fst (get_pdf_url env0 ''https://sci-hub.se'' ''10.1038/nature12373'' st0) = None"
proof -
  have i: "iframe_candidate embed_page = Some ''/viewer''"
    by (simp add: iframe_candidate_def embed_page_def tag_src_def attr_get_def)
  have n: "normalize_url ''https://sci-hub.se'' ''//cdn.example/a.pdf'' = ''https://cdn.example/a.pdf''"
      "normalize_url ''https://sci-hub.se'' ''/paper.pdf'' = ''https://sci-hub.se/paper.pdf''"
    by (simp_all add: normalize_url_def)
  show ?thesis
    using get_pdf_url_priority[of "page_env embed_page" st0 "''https://sci-hub.se''"
            "''10.1038/nature12373''" _ embed_page "''//cdn.example/a.pdf''"]
          get_pdf_url_priority[of "page_env button_page" st0 "''https://sci-hub.se''"
            "''10.1038/nature12373''" _ button_page "''/paper.pdf''"]
          get_pdf_url_priority[of env0 st0 "''https://sci-hub.se''" "''10.1038/nature12373''"]
          button_page_facts embed_page_facts i n
    by (simp add: page_env_def env0_def st0_def py_lower_def lower_char_def)
qed

text \<open>
  C6, as stated, fails on a page whose button navigates to a URL without \<open>pdf\<close> in its
  \<open>onclick\<close>, followed by an anchor to a PDF: the stated order gives the button's URL, the
  code skips the button and returns the anchor's.
\<close>

theorem button_without_pdf_skipped:
  "fst (get_pdf_url (page_env button_page) ''https://sci-hub.se'' ''10.1038/nature12373'' st0)
     = Some ''https://sci-hub.se/paper.pdf''
   \<and> claimed_pdf_link ''https://sci-hub.se'' button_page = Some ''https://sci-hub.se/download/1''
   \<and> fst (get_pdf_url (page_env button_page) ''https://sci-hub.se'' ''10.1038/nature12373'' st0)
       \<noteq> claimed_pdf_link ''https://sci-hub.se'' button_page"
  by (simp add: get_pdf_url_def session_get_def page_env_def env0_def st0_def
        find_pdf_link_priority claimed_pdf_link_def button_page_facts normalize_url_def
        py_lower_def lower_char_def)

subsection \<open>download\_pdf\<close>

lemma py_strip_blank: "(\<forall>c\<in>set d. py_isspace c) \<Longrightarrow> py_strip d = []"
proof -
  assume "\<forall>c\<in>set d. py_isspace c"
  then have h: "dropWhile py_isspace d = []" by (induction d) auto
  show ?thesis by (simp only: py_strip_def h rev.simps dropWhile.simps)
qed

lemma try_get_requests:
  "requests (snd (try_get e req st)) = requests st @ [req]"
  by (simp add: try_get_def session_get_def split: sum.splits option.splits)

lemma rate_limit_wait_requests [simp]:
  "requests (rate_limit_wait e s st) = requests st"
  by (simp add: rate_limit_wait_def time_time_def time_sleep_def Let_def)

lemma make_request_requests:
  "\<exists>more. requests (snd (make_request e s ep ps rc st))
            = requests st @ (BASE_URL @ ''/'' @ ep, ps) # more"
proof (induction e s ep ps rc st rule: make_request.induct)
  case (1 e s ep ps rc st)
  let ?req = "(BASE_URL @ ''/'' @ ep, ps)"
  obtain out st1 where t: "try_get e ?req (rate_limit_wait e s st) = (out, st1)"
    by (cases "try_get e ?req (rate_limit_wait e s st)")
  have q1: "requests st1 = requests st @ [?req]"
    using try_get_requests[of e ?req "rate_limit_wait e s st"] t by simp
  show ?case
  proof (cases out)
    case (Got r)
    with t q1 show ?thesis by (subst make_request.simps) simp
  next
    case Limited
    show ?thesis
    proof (cases "int rc < max_retries s")
      case True
      obtain tm st2 where tt: "time_time e st1 = (tm, st2)" by (cases "time_time e st1")
      have q2: "requests st2 = requests st1" using tt by (auto simp: time_time_def)
      from "1.IH"(1)[OF t[symmetric] Limited True tt[symmetric]]
      obtain more where "requests (snd (make_request e s ep ps (Suc rc)
                 (time_sleep Backoff429 (2 ^ rc + frac tm) st2)))
            = requests (time_sleep Backoff429 (2 ^ rc + frac tm) st2) @ ?req # more"
        by blast
      then show ?thesis
        using t Limited True tt q1 q2
        by (subst make_request.simps) (simp add: time_sleep_def)
    next
      case False
      with t Limited q1 show ?thesis by (subst make_request.simps) simp
    qed
  next
    case (Raised ex)
    show ?thesis
    proof (cases "is_RequestException ex \<and> int rc < max_retries s")
      case True
      from "1.IH"(2)[OF t[symmetric] Raised] True
      obtain more where "requests (snd (make_request e s ep ps (Suc rc)
                 (time_sleep BackoffError (2 ^ rc) st1)))
            = requests (time_sleep BackoffError (2 ^ rc) st1) @ ?req # more"
        by blast
      then show ?thesis
        using t Raised True q1
        by (subst make_request.simps) (simp add: time_sleep_def)
    next
      case False
      with t Raised q1 show ?thesis by (subst make_request.simps) auto
    qed
  qed
qed

lemma get_paper_details_requests:
  "\<exists>more. requests (snd (get_paper_details e s pid st))
            = requests st @ (BASE_URL @ ''/paper/'' @ pid, [(''fields'', JStr DEFAULT_FIELDS)]) # more"
proof -
  obtain res st1 where m: "make_request e s (''paper/'' @ pid) [(''fields'', JStr DEFAULT_FIELDS)] 0 st = (res, st1)"
    by (cases "make_request e s (''paper/'' @ pid) [(''fields'', JStr DEFAULT_FIELDS)] 0 st")
  have "snd (get_paper_details e s pid st) = st1"
    using m by (simp add: get_paper_details_def split: sum.splits option.splits)
  moreover from make_request_requests[of e s "''paper/'' @ pid" "[(''fields'', JStr DEFAULT_FIELDS)]" 0 st] m
  obtain more where "requests st1 = requests st @ (BASE_URL @ ''/paper/'' @ pid, [(''fields'', JStr DEFAULT_FIELDS)]) # more"
    by auto
  ultimately show ?thesis by auto
qed

lemma download_with_curl_requests [simp]:
  "requests (snd (download_with_curl e u p st)) = requests st"
  by (auto simp: download_with_curl_def curl_try_def os_remove_def Let_def
      split: json.splits curl_outcome.splits option.splits sum.splits if_splits prod.splits)

lemma stream_to_file_requests:
  "\<exists>more. requests (snd (stream_to_file e u p st)) = requests st @ more"
  by (auto simp: stream_to_file_def session_get_def write_file_def
      split: sum.splits option.splits)

lemma download_loop_requests:
  "\<exists>more. requests (snd (download_loop e s u p as st)) = requests st @ more"
proof (induction as arbitrary: st)
  case Nil
  then show ?case by simp
next
  case (Cons a as)
  obtain r st1 where sf: "stream_to_file e u p st = (r, st1)" by (cases "stream_to_file e u p st")
  from stream_to_file_requests[of e u p st] sf obtain m1 where m1: "requests st1 = requests st @ m1"
    by auto
  show ?case
  proof (cases r)
    case (Inr ok)
    with sf m1 show ?thesis by simp
  next
    case (Inl ex)
    show ?thesis
    proof (cases "is_RequestException ex")
      case True
      let ?st2 = "(if int a < max_retries s - 1 then time_sleep DownloadRetry (2 ^ a) st1 else st1)"
      from Cons.IH[of ?st2] obtain m2 where
        "requests (snd (download_loop e s u p as ?st2)) = requests ?st2 @ m2" by blast
      moreover have "requests ?st2 = requests st1" by (simp add: time_sleep_def)
      ultimately show ?thesis using sf Inl True m1 by simp
    next
      case False
      with sf Inl m1 show ?thesis by simp
    qed
  qed
qed

lemma semantic_download_requests:
  "\<exists>more. requests (snd (semantic_download_pdf e s pid sp st))
            = requests st @ (BASE_URL @ ''/paper/'' @ pid, [(''fields'', JStr DEFAULT_FIELDS)]) # more"
proof -
  let ?req = "(BASE_URL @ ''/paper/'' @ pid, [(''fields'', JStr DEFAULT_FIELDS)])"
  obtain res st1 where g: "get_paper_details e s pid st = (res, st1)"
    by (cases "get_paper_details e s pid st")
  from get_paper_details_requests[of e s pid st] g obtain m1 where
    m1: "requests st1 = requests st @ ?req # m1" by auto
  show ?thesis
  proof (cases res)
    case (Inl ex)
    with g m1 show ?thesis by (simp add: semantic_download_pdf_def)
  next
    case (Inr found)
    show ?thesis
    proof (cases found)
      case None
      with g m1 Inr show ?thesis by (simp add: semantic_download_pdf_def)
    next
      case (Some pp)
      show ?thesis
      proof (cases "truthy (pdf_url pp)")
        case False
        with g m1 Inr Some show ?thesis by (simp add: semantic_download_pdf_def)
      next
        case True
        show ?thesis
        proof (cases "os_makedirs sp st1")
          case (Inl ex)
          with g m1 Inr Some True show ?thesis by (simp add: semantic_download_pdf_def)
        next
          case mk: (Inr st2)
          then have q2: "requests st2 = requests st1"
            by (auto simp: os_makedirs_def makedirs_def split: if_splits)
          let ?path = "os_path_join sp (''semantic_'' @ map (\<lambda>c. if c = CHR ''/'' \<or> c = CHR '':'' then CHR ''_'' else c) pid @ ''.pdf'')"
          obtain ok st3 where c: "download_with_curl e (pdf_url pp) ?path st2 = (ok, st3)"
            by (cases "download_with_curl e (pdf_url pp) ?path st2")
          have q3: "requests st3 = requests st2"
            using arg_cong[OF c, of "\<lambda>x. requests (snd x)"] by simp
          from download_loop_requests[of e s "pdf_url pp" ?path "[0..<nat (max_retries s)]" st3]
          obtain m4 where "requests (snd (download_loop e s (pdf_url pp) ?path [0..<nat (max_retries s)] st3)) = requests st3 @ m4"
            by blast
          then show ?thesis
            using g m1 Inr Some True mk q2 c q3
            by (cases ok) (simp_all add: semantic_download_pdf_def Let_def)
        qed
      qed
    qed
  qed
qed

text \<open>
  C1, as the code has it. For an empty or whitespace-only DOI, \<open>SciHubFetcher.download_pdf\<close>
  returns \<open>Error: DOI is empty\<close> and changes nothing: no request is sent.
  \<open>SemanticSearcher.download_pdf\<close> validates nothing: whatever the identifier, it starts
  with the metadata request for it.
\<close>

theorem blank_identifier:
  "((\<forall>c\<in>set d. py_isspace c)
      \<longrightarrow> scihub_download_pdf e b d sp st = (Inr ''Error: DOI is empty'', st))
   \<and> (\<exists>more. requests (snd (semantic_download_pdf e s pid dir st))
              = requests st @ (BASE_URL @ ''/paper/'' @ pid, [(''fields'', JStr DEFAULT_FIELDS)]) # more)"
  using semantic_download_requests[of e s pid dir st]
  by (auto simp: scihub_download_pdf_def py_strip_blank)

theorem blank_identifier_witness:
  "py_isspace (CHR 0x20) \<and> py_isspace (CHR 0x09) \<and> py_isspace (CHR 0x0A)
   \<and> scihub_download_pdf env0 ''https://sci-hub.se'' [CHR 0x20, CHR 0x09, CHR 0x0A] None st0
       = (Inr ''Error: DOI is empty'', st0)
   \<and> scihub_download_pdf env0 ''https://sci-hub.se'' [] None st0
       = (Inr ''Error: DOI is empty'', st0)"
proof -
  have h: "\<forall>c\<in>set [CHR 0x20, CHR 0x09, CHR 0x0A]. py_isspace c"
    by (simp add: py_isspace_def)
  from blank_identifier[of "[CHR 0x20, CHR 0x09, CHR 0x0A]" env0 "''https://sci-hub.se''" None st0]
       blank_identifier[of "[]" env0 "''https://sci-hub.se''" None st0] h
  show ?thesis by (simp add: py_isspace_def)
qed

text \<open>
  C1, as stated, fails for \<open>SemanticSearcher.download_pdf\<close>: with the empty identifier and
  no network, it sends the metadata request four times (the first attempt and three
  retries) before it returns an error that is not about the input.
\<close>

theorem semantic_download_pdf_blank_requests:
  "fst (semantic_download_pdf env0 \<lparr>api_key = [], max_retries = 3\<rparr> [] ''downloads'' st0)
     = Inr ''Error: Could not find paper ''
   \<and> length (requests (snd (semantic_download_pdf env0 \<lparr>api_key = [], max_retries = 3\<rparr> []
                               ''downloads'' st0))) = 4
   \<and> requests (snd (semantic_download_pdf env0 \<lparr>api_key = [], max_retries = 3\<rparr> []
                        ''downloads'' st0)) \<noteq> requests st0"
  by (simp add: semantic_download_pdf_def get_paper_details_def try_get_def session_get_def
        rate_limit_wait_def time_time_def time_sleep_def env0_def st0_def
        min_request_interval_def Let_def)

text \<open>
  C2 at an input where the code lets an exception escape: the directory is created before
  the \<open>try\<close> block of \<open>SciHubFetcher.download_pdf\<close>, so a \<open>save_path\<close> that names an
  existing regular file ends in the \<open>FileExistsError\<close> of \<open>mkdir\<close>, not in a string.
\<close>

theorem scihub_download_pdf_raises:
  "scihub_download_pdf env0 ''https://sci-hub.se'' ''10.1038/nature12373'' (Some ''notes.txt'')
     (st0\<lparr>files := [''notes.txt'' \<mapsto> ''hello'']\<rparr>)
   = (Inl OSError, st0\<lparr>files := [''notes.txt'' \<mapsto> ''hello'']\<rparr>)"
  by (simp add: scihub_download_pdf_def py_strip_def py_isspace_def makedirs_def env0_def st0_def)

end
